theory Spec2Isabelle
  imports Complex_Main
begin

section \<open>pysingfel geometry: data model\<close>

text \<open>
  The module \<^verbatim>\<open>pysingfel/geometry.py\<close> is NumPy code over \<^verbatim>\<open>float64\<close> arrays.
  The embedding reads every floating-point number as a real number and every
  \<^verbatim>\<open>int64\<close> as an unbounded integer: the theorems below are statements about the
  arithmetic the code writes down, evaluated exactly. Rounding, overflow, infinities
  and NaN are outside the model.

  A quaternion is the 4-array \<^verbatim>\<open>quat[0..3]\<close>, a rotation matrix the 3x3 array
  \<^verbatim>\<open>rotmat[i, j]\<close> given by its three rows, a position the 3-array \<^verbatim>\<open>(x, y, z)\<close>.
\<close>

type_synonym vec3 = "real \<times> real \<times> real"
type_synonym quat = "real \<times> real \<times> real \<times> real"
type_synonym mat3 = "vec3 \<times> vec3 \<times> vec3"

text \<open>The exceptions the module can raise.\<close>

datatype py_error =
    ValueError
  | IndexError
  | ZeroDivisionError
  | TypeError
  | NameError string

text \<open>
  An array of arbitrary rank is its shape and its entries in row-major (C) order, as
  NumPy stores it. A well-shaped array has as many entries as its shape says.
\<close>

record 'a ndarray =
  shape :: "nat list"
  elems :: "'a list"

definition well_shaped :: "'a ndarray \<Rightarrow> bool" where
  "well_shaped a \<longleftrightarrow> length (elems a) = prod_list (shape a)"

text \<open>\<^verbatim>\<open>np.reshape(a, newshape)\<close> raises \<^verbatim>\<open>ValueError\<close> when the sizes differ.\<close>

definition np_reshape :: "'a ndarray \<Rightarrow> nat list \<Rightarrow> py_error + 'a ndarray" where
  "np_reshape a newshape =
     (if prod_list newshape = length (elems a)
      then Inr \<lparr>shape = newshape, elems = elems a\<rparr>
      else Inl ValueError)"

text \<open>The rows of length \<open>n\<close> of a flat row-major list: the last axis of an array.\<close>

function chunks :: "nat \<Rightarrow> 'a list \<Rightarrow> 'a list list" where
  "chunks n xs = (if n = 0 \<or> xs = [] then [] else take n xs # chunks n (drop n xs))"
  by pat_completeness auto
termination
  by (relation "measure (\<lambda>(n, xs). length xs)") auto

declare chunks.simps [simp del]

text \<open>
  Reading one entry of a flat array the way NumPy indexes: a negative index counts
  from the end, an index outside \<open>[-n, n)\<close> raises \<^verbatim>\<open>IndexError\<close>.
\<close>

definition np_item :: "'a list \<Rightarrow> int \<Rightarrow> py_error + 'a" where
  "np_item xs i =
     (let n = int (length xs); j = (if i < 0 then i + n else i)
      in if 0 \<le> j \<and> j < n then Inr (xs ! nat j) else Inl IndexError)"

text \<open>\<^verbatim>\<open>a[index_array]\<close> on a flat array: every index is read, the first bad one raises.\<close>

fun np_take :: "'a list \<Rightarrow> int list \<Rightarrow> py_error + 'a list" where
  "np_take xs [] = Inr []"
| "np_take xs (i # is) =
     (case np_item xs i of
        Inl e \<Rightarrow> Inl e
      | Inr v \<Rightarrow> (case np_take xs is of Inl e \<Rightarrow> Inl e | Inr vs \<Rightarrow> Inr (v # vs)))"

section \<open>Rotation converter\<close>

text \<open>
  \<^verbatim>\<open>quaternion2rot3d(quat)\<close>: the nine products are formed first, then the matrix entries.
  No check of the norm is made.
\<close>

definition quaternion2rot3d :: "quat \<Rightarrow> mat3" where
  "quaternion2rot3d quat =
     (case quat of (qw, qx, qy, qz) \<Rightarrow>
        let q01 = qw * qx; q02 = qw * qy; q03 = qw * qz;
            q11 = qx * qx; q12 = qx * qy; q13 = qx * qz;
            q22 = qy * qy; q23 = qy * qz;
            q33 = qz * qz
        in ((1 - 2 * (q22 + q33), 2 * (q12 - q03), 2 * (q13 + q02)),
            (2 * (q12 + q03), 1 - 2 * (q11 + q33), 2 * (q23 - q01)),
            (2 * (q13 - q02), 2 * (q23 + q01), 1 - 2 * (q11 + q22))))"

text \<open>
  \<^verbatim>\<open>rotmat_to_quaternion(rotmat)\<close>: four branches, on the trace and then on the largest
  diagonal entry, in the order of the source.
\<close>

definition rotmat_to_quaternion :: "mat3 \<Rightarrow> quat" where
  "rotmat_to_quaternion rotmat =
     (case rotmat of ((r00, r01, r02), (r10, r11, r12), (r20, r21, r22)) \<Rightarrow>
        let tr = r00 + r11 + r22 in
        if tr > 0 then
          (let S = sqrt (tr + 1) * 2
           in (0.25 * S, (r21 - r12) / S, (r02 - r20) / S, (r10 - r01) / S))
        else if r00 > r11 \<and> r00 > r22 then
          (let S = sqrt (1 + r00 - r11 - r22) * 2
           in ((r21 - r12) / S, 0.25 * S, (r01 + r10) / S, (r02 + r20) / S))
        else if r11 > r22 then
          (let S = sqrt (1 + r11 - r00 - r22) * 2
           in ((r02 - r20) / S, (r01 + r10) / S, 0.25 * S, (r12 + r21) / S))
        else
          (let S = sqrt (1 + r22 - r00 - r11) * 2
           in ((r10 - r01) / S, (r02 + r20) / S, (r12 + r21) / S, 0.25 * S)))"

definition quat_neg :: "quat \<Rightarrow> quat" where
  "quat_neg q = (case q of (a, b, c, d) \<Rightarrow> (- a, - b, - c, - d))"

definition quat_norm2 :: "quat \<Rightarrow> real" where
  "quat_norm2 q = (case q of (a, b, c, d) \<Rightarrow> a * a + b * b + c * c + d * d)"

text \<open>Which of the four branches \<^const>\<open>rotmat_to_quaternion\<close> takes (1 to 4).\<close>

definition rotmat_branch :: "mat3 \<Rightarrow> nat" where
  "rotmat_branch rotmat =
     (case rotmat of ((r00, r01, r02), (r10, r11, r12), (r20, r21, r22)) \<Rightarrow>
        if r00 + r11 + r22 > 0 then 1
        else if r00 > r11 \<and> r00 > r22 then 2
        else if r11 > r22 then 3
        else 4)"

text \<open>
  The axis argument of the angle-axis converters: a string (\<^verbatim>\<open>basestring\<close>) or a
  one-dimensional float array.
\<close>

datatype axis_arg = AxisName string | AxisVector "real list"

text \<open>\<^verbatim>\<open>str.lower()\<close> on a byte string: the letters \<open>A..Z\<close> move to \<open>a..z\<close>.\<close>

definition lower_char :: "char \<Rightarrow> char" where
  "lower_char c =
     (let n = (of_char c :: nat) in if 65 \<le> n \<and> n \<le> 90 then char_of (n + 32) else c)"

definition str_lower :: "string \<Rightarrow> string" where
  "str_lower s = map lower_char s"

text \<open>
  The first block of both \<^verbatim>\<open>angle_axis_to_rot3d\<close> and \<^verbatim>\<open>angle_axis_to_quaternion\<close>:
  a name is lowered and looked up, a vector must have \<^verbatim>\<open>len(axis)\<close> equal to 3.
\<close>

definition axis_vector :: "axis_arg \<Rightarrow> py_error + real list" where
  "axis_vector axis =
     (case axis of
        AxisName name \<Rightarrow>
          (let a = str_lower name in
           if a = ''x'' then Inr [1, 0, 0]
           else if a = ''y'' then Inr [0, 1, 0]
           else if a = ''z'' then Inr [0, 0, 1]
           else Inl ValueError)
      | AxisVector v \<Rightarrow> if length v \<noteq> 3 then Inl ValueError else Inr v)"

text \<open>\<^verbatim>\<open>np.linalg.norm\<close> of a vector, and \<^verbatim>\<open>axis /= np.linalg.norm(axis)\<close>.\<close>

definition linalg_norm :: "real list \<Rightarrow> real" where
  "linalg_norm v = sqrt (sum_list (map (\<lambda>x. x * x) v))"

definition normalized :: "real list \<Rightarrow> real list" where
  "normalized v = map (\<lambda>x. x / linalg_norm v) v"


text \<open>\<^verbatim>\<open>angle_axis_to_quaternion(axis, theta)\<close>, for a float \<^verbatim>\<open>theta\<close>.\<close>

definition angle_axis_to_quaternion :: "axis_arg \<Rightarrow> real \<Rightarrow> py_error + quat" where
  "angle_axis_to_quaternion axis theta =
     (case axis_vector axis of
        Inl e \<Rightarrow> Inl e
      | Inr v \<Rightarrow>
          (case normalized v of
             [a, b, c] \<Rightarrow>
               let angle = theta / 2
               in Inr (cos angle, sin angle * a, sin angle * b, sin angle * c)
           | _ \<Rightarrow> Inl ValueError))"


section \<open>Orientation sampler\<close>

text \<open>
  \<^verbatim>\<open>points_on_1sphere(num_pts, rotation_axis)\<close>. \<^verbatim>\<open>360. / num_pts\<close> is a Python float
  division and raises \<^verbatim>\<open>ZeroDivisionError\<close> for 0 points. The loop writes row \<open>i\<close> of
  \<^verbatim>\<open>points\<close> and adds \<^verbatim>\<open>inc_ang\<close> to \<^verbatim>\<open>my_ang\<close>; \<open>axis_name\<close> is the literal the branch
  passes to \<^verbatim>\<open>angle_axis_to_quaternion\<close>.
\<close>

fun points_on_1sphere_loop ::
  "string \<Rightarrow> real \<Rightarrow> nat list \<Rightarrow> real \<Rightarrow> quat list \<Rightarrow> py_error + quat list" where
  "points_on_1sphere_loop axis_name inc_ang [] my_ang points = Inr points"
| "points_on_1sphere_loop axis_name inc_ang (i # rest) my_ang points =
     (case angle_axis_to_quaternion (AxisName axis_name) (my_ang * pi / 180) of
        Inl e \<Rightarrow> Inl e
      | Inr q \<Rightarrow>
          points_on_1sphere_loop axis_name inc_ang rest (my_ang + inc_ang) (points[i := q]))"

definition points_on_1sphere :: "nat \<Rightarrow> string \<Rightarrow> py_error + quat list" where
  "points_on_1sphere num_pts rotation_axis =
     (let points = replicate num_pts (0, 0, 0, 0) in
      if num_pts = 0 then Inl ZeroDivisionError
      else
        let inc_ang = 360 / real num_pts;
            my_ang = 0
        in if rotation_axis = ''y''
           then points_on_1sphere_loop ''y'' inc_ang [0..<num_pts] my_ang points
           else if rotation_axis = ''z''
           then points_on_1sphere_loop ''x'' inc_ang [0..<num_pts] my_ang points
           else Inr points)"

text \<open>
  \<^verbatim>\<open>get_random_quat(num_pts)\<close>. The draw \<^verbatim>\<open>u = np.random.rand(3, num_pts)\<close> is an argument of
  the model: an array of shape \<open>(3, num_pts)\<close>. \<open>np_transpose2\<close> is \<^verbatim>\<open>np.transpose\<close> of
  a 2-D array given by its rows.
\<close>

definition np_transpose2 :: "nat \<Rightarrow> real list list \<Rightarrow> real list list" where
  "np_transpose2 columns rows = map (\<lambda>i. map (\<lambda>r. r ! i) rows) [0..<columns]"

definition get_random_quat :: "nat \<Rightarrow> real ndarray \<Rightarrow> py_error + real ndarray" where
  "get_random_quat num_pts u =
     (case chunks num_pts (elems u) of
        [u1, u2, u3] \<Rightarrow>
          let quat = [map2 (\<lambda>a b. sqrt (1 - a) * sin (2 * pi * b)) u1 u2,
                      map2 (\<lambda>a b. sqrt (1 - a) * cos (2 * pi * b)) u1 u2,
                      map2 (\<lambda>a b. sqrt a * sin (2 * pi * b)) u1 u3,
                      map2 (\<lambda>a b. sqrt a * cos (2 * pi * b)) u1 u3]
          in Inr \<lparr>shape = [num_pts, 4], elems = concat (np_transpose2 num_pts quat)\<rparr>
      | _ \<Rightarrow> if num_pts = 0 then Inr \<lparr>shape = [0, 4], elems = []\<rparr> else Inl ValueError)"

text \<open>
  \<^verbatim>\<open>points_on_2sphere(num_pts)\<close>. The three nested sweeps are loops that need not end,
  so each is a partial function into \<open>option\<close>: \<open>None\<close> is a loop that runs forever,
  \<open>Some (Inl e)\<close> a raised exception, \<open>Some (Inr (ind, points))\<close> the state when the
  loop is left. Writing \<^verbatim>\<open>points[ind, :]\<close> raises \<^verbatim>\<open>IndexError\<close> once \<open>ind\<close> reaches the
  \<open>2 * num_pts\<close> rows of \<^verbatim>\<open>points\<close>.
\<close>

partial_function (option) sweep_w3 ::
  "real \<Rightarrow> real \<Rightarrow> real \<Rightarrow> real \<Rightarrow> nat \<Rightarrow> quat list \<Rightarrow> (py_error + nat \<times> quat list) option" where
  "sweep_w3 w1 w2 delta_w3 w3 ind points =
     (if w3 < 2 * pi
      then if ind < length points
           then sweep_w3 w1 w2 delta_w3 (w3 + delta_w3) (ind + 1)
                  (points[ind := (cos w1, sin w1 * cos w2,
                                  sin w1 * sin w2 * cos w3, sin w1 * sin w2 * sin w3)])
           else Some (Inl IndexError)
      else Some (Inr (ind, points)))"

partial_function (option) sweep_w2 ::
  "real \<Rightarrow> real \<Rightarrow> real \<Rightarrow> nat \<Rightarrow> quat list \<Rightarrow> (py_error + nat \<times> quat list) option" where
  "sweep_w2 w1 delta_w2 w2 ind points =
     (if w2 < pi
      then Option.bind (sweep_w3 w1 w2 (delta_w2 / sin w2) (0.5 * (delta_w2 / sin w2)) ind points)
             (\<lambda>r. case r of
                     Inl e \<Rightarrow> Some (Inl e)
                   | Inr s \<Rightarrow> sweep_w2 w1 delta_w2 (w2 + delta_w2) (fst s) (snd s))
      else Some (Inr (ind, points)))"

partial_function (option) sweep_w1 ::
  "real \<Rightarrow> real \<Rightarrow> nat \<Rightarrow> quat list \<Rightarrow> (py_error + nat \<times> quat list) option" where
  "sweep_w1 delta_w1 w1 ind points =
     (if w1 < pi
      then Option.bind (sweep_w2 w1 (delta_w1 / sin w1) (0.5 * (delta_w1 / sin w1)) ind points)
             (\<lambda>r. case r of
                     Inl e \<Rightarrow> Some (Inl e)
                   | Inr s \<Rightarrow> sweep_w1 delta_w1 (w1 + delta_w1) (fst s) (snd s))
      else Some (Inr (ind, points)))"

text \<open>
  One pass of the outer \<^verbatim>\<open>while\<close>, for the current \<^verbatim>\<open>delta\<close>. A pass that generates no
  point makes \<^verbatim>\<open>np.log\<close> return \<open>-inf\<close> and the next \<^verbatim>\<open>delta\<close> 0; with \<^verbatim>\<open>delta = 0\<close> NumPy
  computes \<open>0 / 0 = nan\<close> for \<^verbatim>\<open>delta_w2\<close>, the inner loops are skipped and \<^verbatim>\<open>w1\<close> stays 0:
  the pass never ends.
\<close>

definition sphere_pass :: "real \<Rightarrow> quat list \<Rightarrow> (py_error + nat \<times> quat list) option" where
  "sphere_pass delta points = (if delta \<le> 0 then None else sweep_w1 delta (0.5 * delta) 0 points)"

text \<open>The outer loop, with the iterations that \<^verbatim>\<open>max_iter\<close> still allows.\<close>

fun points_on_2sphere_loop ::
  "nat \<Rightarrow> nat \<Rightarrow> real \<Rightarrow> nat \<Rightarrow> quat list \<Rightarrow> (py_error + quat list) option" where
  "points_on_2sphere_loop 0 num_pts delta ind points = Some (Inr points)"
| "points_on_2sphere_loop (Suc remaining) num_pts delta ind points =
     (if ind \<noteq> num_pts
      then (case sphere_pass delta points of
              None \<Rightarrow> None
            | Some (Inl e) \<Rightarrow> Some (Inl e)
            | Some (Inr (ind', points')) \<Rightarrow>
                points_on_2sphere_loop remaining num_pts
                  (delta * (if ind' = 0 then 0 else exp (ln (real ind' / real num_pts) / 3)))
                  ind' points')
      else Some (Inr points))"

definition points_on_2sphere :: "nat \<Rightarrow> (py_error + quat list) option" where
  "points_on_2sphere num_pts =
     (let points = replicate (2 * num_pts) (0, 0, 0, 0);
          dim_num = 4 :: nat;
          surface_area = real dim_num * pi ^ (dim_num div 2) / real (dim_num div 2)
      in if num_pts = 0 then Some (Inl ZeroDivisionError)
         else
           let delta = exp (ln (surface_area / real num_pts) / 3);
               max_iter = 1000
           in (case points_on_2sphere_loop max_iter num_pts delta 0 points of
                 None \<Rightarrow> None
               | Some (Inl e) \<Rightarrow> Some (Inl e)
               | Some (Inr points') \<Rightarrow> Some (Inr (take num_pts points'))))"

text \<open>A loop result that leaves the number of rows of \<^verbatim>\<open>points\<close> unchanged.\<close>

definition keeps_length :: "quat list \<Rightarrow> (py_error + nat \<times> quat list) \<Rightarrow> bool" where
  "keeps_length points y = (case y of Inl e \<Rightarrow> True | Inr s \<Rightarrow> length (snd s) = length points)"

text \<open>
  The quaternion of the rotation by \<open>degrees\<close> about a unit coordinate axis, as the
  specification gives it: \<open>[cos(\<theta>/2), sin(\<theta>/2) \<cdot> axis]\<close>.
\<close>

definition axis_rotation_quat :: "vec3 \<Rightarrow> real \<Rightarrow> quat" where
  "axis_rotation_quat axis degrees =
     (case axis of (a, b, c) \<Rightarrow>
        let half = (degrees * pi / 180) / 2
        in (cos half, sin half * a, sin half * b, sin half * c))"

section \<open>Reciprocal-space projector\<close>










section \<open>Trilinear slice engine\<close>

text \<open>
  \<^verbatim>\<open>rotate_pixels_in_reciprocal_space(rot_mat, pixels_position)\<close> is
  \<^verbatim>\<open>np.dot(pixels_position, rot_mat.T)\<close>: every row \<open>p\<close> of the last axis becomes
  \<open>p \<cdot> rot_mat\<^sup>T\<close>. The last axis must have length 3; a 0-dimensional argument is a
  scalar and multiplies the transposed matrix.
\<close>

definition mat3_transpose :: "mat3 \<Rightarrow> mat3" where
  "mat3_transpose m =
     (case m of ((a, b, c), (d, e, f), (g, h, i)) \<Rightarrow> ((a, d, g), (b, e, h), (c, f, i)))"

fun row_dot_mat :: "real list \<Rightarrow> mat3 \<Rightarrow> real list" where
  "row_dot_mat [x, y, z] ((a, b, c), (d, e, f), (g, h, i)) =
     [x * a + y * d + z * g, x * b + y * e + z * h, x * c + y * f + z * i]"
| "row_dot_mat _ _ = []"

definition rotate_pixels_in_reciprocal_space :: "mat3 \<Rightarrow> real ndarray \<Rightarrow> py_error + real ndarray" where
  "rotate_pixels_in_reciprocal_space rot_mat pixels_position =
     (case shape pixels_position of
        [] \<Rightarrow>
          (case mat3_transpose rot_mat of ((a, b, c), (d, e, f), (g, h, i)) \<Rightarrow>
             Inr \<lparr>shape = [3, 3],
                  elems = map (\<lambda>m. hd (elems pixels_position) * m) [a, b, c, d, e, f, g, h, i]\<rparr>)
      | _ \<Rightarrow>
          if last (shape pixels_position) = 3
          then Inr \<lparr>shape = shape pixels_position,
                    elems = concat (map (\<lambda>p. row_dot_mat p (mat3_transpose rot_mat))
                                      (chunks 3 (elems pixels_position)))\<rparr>
          else Inl ValueError)"

text \<open>
  The stencil of one pixel. \<open>stencil_index_row\<close> is the block of assignments
  \<^verbatim>\<open>indexes[:, k, :] = ...\<close> for \<open>k = 0..7\<close> read at one pixel, \<open>stencil_weight_row\<close> the
  block \<^verbatim>\<open>weight[:, k] = ...\<close>, with \<^verbatim>\<open>np.prod(.., axis=-1)\<close> for corners 0 and 7.
\<close>

fun stencil_index_row :: "int list \<Rightarrow> int list" where
  "stencil_index_row [i0, i1, i2] =
     [i0, i1, i2,
      i0, i1, i2 + 1,
      i0, i1 + 1, i2,
      i0, i1 + 1, i2 + 1,
      i0 + 1, i1, i2,
      i0 + 1, i1, i2 + 1,
      i0 + 1, i1 + 1, i2,
      i0 + 1, i1 + 1, i2 + 1]"
| "stencil_index_row _ = []"

fun stencil_weight_row :: "real list \<Rightarrow> real list \<Rightarrow> real list" where
  "stencil_weight_row [f0, f1, f2] [c0, c1, c2] =
     [prod_list [c0, c1, c2],
      c0 * c1 * f2,
      c0 * f1 * c2,
      c0 * f1 * f2,
      f0 * c1 * c2,
      f0 * c1 * f2,
      f0 * f1 * c2,
      prod_list [f0, f1, f2]]"
| "stencil_weight_row _ _ = []"

text \<open>
  The part the two stencil functions share, from \<^verbatim>\<open>tmp_index\<close> on: the floor of the
  voxel-unit coordinates, \<^verbatim>\<open>dfloor\<close>, \<^verbatim>\<open>dceiling\<close>, and the entries of the two result
  arrays, pixel after pixel.
\<close>

definition stencil_entries :: "real list \<Rightarrow> int list \<times> real list" where
  "stencil_entries voxel_unit =
     (let tmp_index = map floor voxel_unit;
          dfloor = map2 (\<lambda>u i. u - of_int i) voxel_unit tmp_index;
          dceiling = map (\<lambda>d. 1 - d) dfloor
      in (concat (map stencil_index_row (chunks 3 tmp_index)),
          concat (map2 stencil_weight_row (chunks 3 dfloor) (chunks 3 dceiling))))"

text \<open>
  \<^verbatim>\<open>get_weight_and_index(pixel_position, voxel_length, voxel_num_1d)\<close>. The module is
  Python 2 code (it uses \<^verbatim>\<open>basestring\<close>), so \<^verbatim>\<open>(voxel_num_1d - 1) / 2\<close> on an integer
  voxel count is floor division.
\<close>

definition get_weight_and_index ::
  "real ndarray \<Rightarrow> real \<Rightarrow> int \<Rightarrow> py_error + (int ndarray \<times> real ndarray)" where
  "get_weight_and_index pixel_position voxel_length voxel_num_1d =
     (let detector_shape = butlast (shape pixel_position);
          pixel_num = prod_list detector_shape
      in case np_reshape pixel_position [pixel_num, 3] of
           Inl e \<Rightarrow> Inl e
         | Inr pixel_position_1d \<Rightarrow>
             let shift = of_int ((voxel_num_1d - 1) div 2);
                 pixel_position_1d_voxel_unit =
                   map (\<lambda>v. v / voxel_length + shift) (elems pixel_position_1d)
             in case stencil_entries pixel_position_1d_voxel_unit of (indexes, weight) \<Rightarrow>
                  Inr (\<lparr>shape = detector_shape @ [8, 3], elems = indexes\<rparr>,
                       \<lparr>shape = detector_shape @ [8], elems = weight\<rparr>))"

text \<open>
  \<^verbatim>\<open>get_weight_in_reciprocal_space\<close> unpacks the shape into four names
  (\<^verbatim>\<open>ValueError\<close> for any other rank). A last axis of length 1 broadcasts into
  \<^verbatim>\<open>indexes[:, :, :, 0, :]\<close> and then fails at \<^verbatim>\<open>tmp_index[:, :, :, 1]\<close>; any other
  length but 3 fails in that first assignment.
\<close>

definition get_weight_in_reciprocal_space ::
  "real ndarray \<Rightarrow> real \<Rightarrow> int \<Rightarrow> py_error + (int ndarray \<times> real ndarray)" where
  "get_weight_in_reciprocal_space pixel_position voxel_length voxel_num_1d =
     (let shift = of_int ((voxel_num_1d - 1) div 2);
          pixel_position_voxel_unit =
            map (\<lambda>v. v / voxel_length + shift) (elems pixel_position)
      in case shape pixel_position of
           [num_panel, num_x, num_y, n3] \<Rightarrow>
             if n3 = 1 then Inl IndexError
             else if n3 \<noteq> 3 then Inl ValueError
             else (case stencil_entries pixel_position_voxel_unit of (indexes, weight) \<Rightarrow>
                     Inr (\<lparr>shape = [num_panel, num_x, num_y, 8, 3], elems = indexes\<rparr>,
                          \<lparr>shape = [num_panel, num_x, num_y, 8], elems = weight\<rparr>))
         | _ \<Rightarrow> Inl ValueError)"

text \<open>
  \<^verbatim>\<open>take_one_slice(local_index, local_weight, volume, pixel_num, pattern_shape)\<close>.
  \<^verbatim>\<open>np.matmul\<close> with the conversion factor turns each index triple into the flat
  row-major index; \<^verbatim>\<open>volume_1d[index_2d]\<close> gathers, with NumPy's index rules; the
  weighted sum runs over the 8 corners of each pixel.
\<close>

fun index_dot :: "int list \<Rightarrow> int list \<Rightarrow> int" where
  "index_dot [i0, i1, i2] [f0, f1, f2] = i0 * f0 + i1 * f1 + i2 * f2"
| "index_dot _ _ = 0"

definition take_one_slice ::
  "int ndarray \<Rightarrow> real ndarray \<Rightarrow> real ndarray \<Rightarrow> nat \<Rightarrow> nat list \<Rightarrow> py_error + real ndarray" where
  "take_one_slice local_index local_weight volume pixel_num pattern_shape =
     (case shape volume of
        [] \<Rightarrow> Inl IndexError
      | volume_num_1d # _ \<Rightarrow>
          let convertion_factor =
                [int volume_num_1d * int volume_num_1d, int volume_num_1d, 1]
          in case np_reshape local_index [pixel_num, 8, 3] of
               Inl e \<Rightarrow> Inl e
             | Inr index_3d \<Rightarrow>
                 let index_2d = map (\<lambda>r. index_dot r convertion_factor)
                                    (chunks 3 (elems index_3d))
                 in case np_reshape volume [volume_num_1d ^ 3] of
                      Inl e \<Rightarrow> Inl e
                    | Inr volume_1d \<Rightarrow>
                        (case np_reshape local_weight [pixel_num, 8] of
                           Inl e \<Rightarrow> Inl e
                         | Inr weight_2d \<Rightarrow>
                             (case np_take (elems volume_1d) index_2d of
                                Inl e \<Rightarrow> Inl e
                              | Inr data_to_merge \<Rightarrow>
                                  let data_merged =
                                        map sum_list
                                          (chunks 8 (map2 (*) (elems weight_2d) data_to_merge))
                                  in np_reshape \<lparr>shape = [pixel_num], elems = data_merged\<rparr>
                                       pattern_shape)))"




text \<open>
  The weights as the specification words them: for the corner with offsets
  \<open>(ox, oy, oz)\<close> in \<open>{0, 1}\<close>, the product over the three axes of \<open>1 - frac\<close> where the
  offset is 0 and of \<open>frac\<close> where it is 1; the corners in the order of the source.
\<close>

definition axis_factor :: "real \<Rightarrow> nat \<Rightarrow> real" where
  "axis_factor fr offset = (if offset = 0 then 1 - fr else fr)"

definition trilinear_weights :: "real \<Rightarrow> real \<Rightarrow> real \<Rightarrow> real list" where
  "trilinear_weights fx fy fz =
     map (\<lambda>(ox, oy, oz). axis_factor fx ox * axis_factor fy oy * axis_factor fz oz)
       [(0, 0, 0), (0, 0, 1), (0, 1, 0), (0, 1, 1), (1, 0, 0), (1, 0, 1), (1, 1, 0), (1, 1, 1)]"



section \<open>Name resolution and \<^verbatim>\<open>take_n_random_slices\<close>\<close>

text \<open>
  A name that a function body does not assign is looked up, when the statement that
  uses it runs, in the globals of its module and then in the builtins; a name found in
  neither raises \<^verbatim>\<open>NameError\<close>. \<open>module_globals\<close> lists every name \<^verbatim>\<open>geometry.py\<close> binds at
  module level (its four imports and its \<^verbatim>\<open>def\<close>s, and the names every module has);
  \<open>python_builtins\<close> lists the builtins of Python 2.7.
\<close>

definition module_globals :: "string list" where
  "module_globals =
     [''np'', ''time'', ''jit'', ''special_ortho_group'',
      ''rotate_pixels_in_reciprocal_space'', ''get_weight_and_index'',
      ''get_weight_in_reciprocal_space'', ''take_one_slice'', ''take_n_slice'',
      ''take_n_random_slices'', ''reshape_pixels_position_arrays_to_1d'',
      ''get_reciprocal_space_pixel_position'', ''get_polarization_correction'',
      ''solid_angle'', ''get_reciprocal_position_and_correction'', ''get_reciprocal_mesh'',
      ''assemble_image_stack'', ''assemble_image_stack_batch'', ''angle_axis_to_rot3d'',
      ''angle_axis_to_quaternion'', ''euler_to_rot3d'', ''euler_to_quaternion'',
      ''quaternion_to_angle_axis'', ''rotmat_to_quaternion'', ''quaternion2rot3d'',
      ''points_on_1sphere'', ''points_on_2sphere'', ''get_random_rotation'',
      ''get_random_quat'', ''get_uniform_quat'',
      ''__name__'', ''__doc__'', ''__file__'', ''__package__'', ''__builtins__'']"

definition python_builtins :: "string list" where
  "python_builtins =
     [''abs'', ''all'', ''any'', ''apply'', ''basestring'', ''bin'', ''bool'', ''buffer'',
      ''bytearray'', ''bytes'', ''callable'', ''chr'', ''classmethod'', ''cmp'', ''coerce'',
      ''compile'', ''complex'', ''copyright'', ''credits'', ''delattr'', ''dict'', ''dir'',
      ''divmod'', ''enumerate'', ''eval'', ''execfile'', ''exit'', ''file'', ''filter'',
      ''float'', ''format'', ''frozenset'', ''getattr'', ''globals'', ''hasattr'', ''hash'',
      ''help'', ''hex'', ''id'', ''input'', ''int'', ''intern'', ''isinstance'',
      ''issubclass'', ''iter'', ''len'', ''license'', ''list'', ''locals'', ''long'', ''map'',
      ''max'', ''memoryview'', ''min'', ''next'', ''object'', ''oct'', ''open'', ''ord'',
      ''pow'', ''print'', ''property'', ''quit'', ''range'', ''raw_input'', ''reduce'',
      ''reload'', ''repr'', ''reversed'', ''round'', ''set'', ''setattr'', ''slice'',
      ''sorted'', ''staticmethod'', ''str'', ''sum'', ''super'', ''tuple'', ''type'',
      ''unichr'', ''unicode'', ''vars'', ''xrange'', ''zip'', ''__import__'',
      ''True'', ''False'', ''None'', ''Ellipsis'', ''NotImplemented'', ''__debug__'',
      ''ArithmeticError'', ''AssertionError'', ''AttributeError'', ''BaseException'',
      ''BufferError'', ''BytesWarning'', ''DeprecationWarning'', ''EOFError'',
      ''EnvironmentError'', ''Exception'', ''FloatingPointError'', ''FutureWarning'',
      ''GeneratorExit'', ''IOError'', ''ImportError'', ''ImportWarning'',
      ''IndentationError'', ''IndexError'', ''KeyError'', ''KeyboardInterrupt'',
      ''LookupError'', ''MemoryError'', ''NameError'', ''NotImplementedError'', ''OSError'',
      ''OverflowError'', ''PendingDeprecationWarning'', ''ReferenceError'', ''RuntimeError'',
      ''RuntimeWarning'', ''StandardError'', ''StopIteration'', ''SyntaxError'',
      ''SyntaxWarning'', ''SystemError'', ''SystemExit'', ''TabError'', ''TypeError'',
      ''UnboundLocalError'', ''UnicodeDecodeError'', ''UnicodeEncodeError'', ''UnicodeError'',
      ''UnicodeTranslateError'', ''UnicodeWarning'', ''UserWarning'', ''ValueError'',
      ''Warning'', ''ZeroDivisionError'']"

text \<open>
  What a name denotes, as far as \<^verbatim>\<open>take_n_random_slices\<close> uses it: something callable
  on the orientation sequence that gives a count, something callable on a quaternion
  that gives a matrix, or any other object.
\<close>

datatype py_object =
    CountFunction "quat list \<Rightarrow> nat"
  | MatrixFunction "quat \<Rightarrow> mat3"
  | OtherObject

type_synonym namespace = "string \<Rightarrow> py_object option"

definition geometry_namespace :: namespace where
  "geometry_namespace name =
     (if name = ''len'' then Some (CountFunction length)
      else if name = ''quaternion2rot3d'' then Some (MatrixFunction quaternion2rot3d)
      else if name \<in> set module_globals \<or> name \<in> set python_builtins then Some OtherObject
      else None)"

text \<open>
  \<^verbatim>\<open>np.broadcast_to\<close>, which the assignment \<^verbatim>\<open>slices[l, :, :, :] = ...\<close> applies to its
  right-hand side: the shapes are aligned at the last axis, an axis of length 1
  stretches, extra leading axes of the value must have length 1.
\<close>

fun unravel_index :: "nat list \<Rightarrow> nat \<Rightarrow> nat list" where
  "unravel_index [] t = []"
| "unravel_index (d # ds) t = (t div prod_list ds) mod d # unravel_index ds (t mod prod_list ds)"

definition ravel_index :: "nat list \<Rightarrow> nat list \<Rightarrow> nat" where
  "ravel_index dims idx = fold (\<lambda>(d, i) acc. acc * d + i) (zip dims idx) 0"

definition np_broadcast_to :: "real ndarray \<Rightarrow> nat list \<Rightarrow> py_error + real ndarray" where
  "np_broadcast_to a dims =
     (let extra = length (shape a) - length dims;
          src = replicate (length dims - length (shape a)) 1 @ drop extra (shape a)
      in if list_all (\<lambda>d. d = 1) (take extra (shape a)) \<and>
            list_all (\<lambda>(s, d). s = d \<or> s = 1) (zip src dims)
         then Inr \<lparr>shape = dims,
                   elems = map (\<lambda>t. elems a !
                                  ravel_index src
                                    (map2 (\<lambda>s i. if s = 1 then 0 else i) src (unravel_index dims t)))
                             [0..<prod_list dims]\<rparr>
         else Inl ValueError)"

text \<open>The attributes of the detector object that the function reads.\<close>

record detector =
  pixel_rms :: "real ndarray"
  pixel_position_reciprocal :: "real ndarray"
  pixel_num_total :: nat
  pedestal :: "real ndarray"

text \<open>
  The loop of \<^verbatim>\<open>take_n_random_slices\<close>. Each pass looks \<^verbatim>\<open>quat2rot3d\<close> up, calls it on
  \<^verbatim>\<open>orientations[l]\<close>, rotates the pixels, builds the stencil with
  \<^verbatim>\<open>get_weight_in_reciprocal_space\<close>, gathers the slice and stores it in \<^verbatim>\<open>slices[l]\<close>.
\<close>

fun take_n_random_slices_loop ::
  "namespace \<Rightarrow> detector \<Rightarrow> real ndarray \<Rightarrow> real \<Rightarrow> quat list \<Rightarrow> nat list \<Rightarrow> nat list \<Rightarrow>
   real ndarray list \<Rightarrow> py_error + real ndarray list" where
  "take_n_random_slices_loop ns det volume voxel_length orientations slice_shape [] slices =
     Inr slices"
| "take_n_random_slices_loop ns det volume voxel_length orientations slice_shape (l # rest) slices =
     (case ns ''quat2rot3d'' of
        None \<Rightarrow> Inl (NameError ''quat2rot3d'')
      | Some (MatrixFunction quat2rot3d) \<Rightarrow>
          if \<not> l < length orientations then Inl IndexError
          else
            (case rotate_pixels_in_reciprocal_space (quat2rot3d (orientations ! l))
                    (pixel_position_reciprocal det) of
               Inl e \<Rightarrow> Inl e
             | Inr pixel_position_new \<Rightarrow>
                 (case shape volume of
                    [] \<Rightarrow> Inl IndexError
                  | volume_num_1d # _ \<Rightarrow>
                      (case get_weight_in_reciprocal_space pixel_position_new voxel_length
                              (int volume_num_1d) of
                         Inl e \<Rightarrow> Inl e
                       | Inr (index, weight_tmp) \<Rightarrow>
                           (case take_one_slice index weight_tmp volume (pixel_num_total det)
                                   (shape (pedestal det)) of
                              Inl e \<Rightarrow> Inl e
                            | Inr one_slice \<Rightarrow>
                                (case np_broadcast_to one_slice slice_shape of
                                   Inl e \<Rightarrow> Inl e
                                 | Inr stored \<Rightarrow>
                                     take_n_random_slices_loop ns det volume voxel_length
                                       orientations slice_shape rest (slices[l := stored]))))))
      | Some _ \<Rightarrow> Inl TypeError)"

text \<open>
  \<^verbatim>\<open>take_n_random_slices(detector, volume, voxel_length, orientations)\<close> in a namespace
  \<open>ns\<close>. Its first statement is \<^verbatim>\<open>number = length(orientations)\<close>.
\<close>

definition take_n_random_slices_in ::
  "namespace \<Rightarrow> detector \<Rightarrow> real ndarray \<Rightarrow> real \<Rightarrow> quat list \<Rightarrow> py_error + real ndarray list" where
  "take_n_random_slices_in ns det volume voxel_length orientations =
     (case ns ''length'' of
        None \<Rightarrow> Inl (NameError ''length'')
      | Some (CountFunction length_of) \<Rightarrow>
          (let number = length_of orientations
           in case shape (pixel_rms det) of
                p0 # p1 # p2 # _ \<Rightarrow>
                  take_n_random_slices_loop ns det volume voxel_length orientations [p0, p1, p2]
                    [0..<number]
                    (replicate number \<lparr>shape = [p0, p1, p2], elems = replicate (p0 * p1 * p2) 0\<rparr>)
              | _ \<Rightarrow> Inl IndexError)
      | Some _ \<Rightarrow> Inl TypeError)"

definition take_n_random_slices ::
  "detector \<Rightarrow> real ndarray \<Rightarrow> real \<Rightarrow> quat list \<Rightarrow> py_error + real ndarray list" where
  "take_n_random_slices = take_n_random_slices_in geometry_namespace"

section \<open>Panel assembler\<close>

text \<open>
  The assembler works on arrays of the documented ranks: \<^verbatim>\<open>index_map\<close> of rank 4
  (panel, x, y, coordinate), \<^verbatim>\<open>image_stack\<close> of rank 3 (panel, x, y), or of rank 4
  (stack, panel, x, y) for the batch version. Indexing an array of too small a rank
  raises \<^verbatim>\<open>IndexError\<close>; the model answers every other rank the same way.

  \<open>last_axis_column a j\<close> is \<^verbatim>\<open>a[..., j]\<close> flattened, \<open>np_max\<close> is \<^verbatim>\<open>np.max\<close>
  (\<^verbatim>\<open>ValueError\<close> on an empty array), \<open>axis0_item a l\<close> is \<^verbatim>\<open>a[l]\<close>, and
  \<open>np_zeros\<close> is \<^verbatim>\<open>np.zeros\<close> (\<^verbatim>\<open>ValueError\<close> on a negative dimension).
\<close>

definition last_axis_column :: "'a ndarray \<Rightarrow> nat \<Rightarrow> py_error + 'a list" where
  "last_axis_column a j =
     (let k = last (shape a)
      in if j < k then Inr (map (\<lambda>r. r ! j) (chunks k (elems a))) else Inl IndexError)"

definition np_max :: "int list \<Rightarrow> py_error + int" where
  "np_max xs = (case xs of [] \<Rightarrow> Inl ValueError | x # rest \<Rightarrow> Inr (fold max rest x))"

definition index_max :: "int ndarray \<Rightarrow> nat \<Rightarrow> py_error + int" where
  "index_max index_map j =
     (case last_axis_column index_map j of Inl e \<Rightarrow> Inl e | Inr column \<Rightarrow> np_max column)"

definition axis0_item :: "'a ndarray \<Rightarrow> nat \<Rightarrow> py_error + 'a ndarray" where
  "axis0_item a l =
     (case shape a of
        [] \<Rightarrow> Inl IndexError
      | n # rest \<Rightarrow>
          if l < n
          then Inr \<lparr>shape = rest,
                    elems = take (prod_list rest) (drop (l * prod_list rest) (elems a))\<rparr>
          else Inl IndexError)"

definition np_zeros :: "int list \<Rightarrow> py_error + real ndarray" where
  "np_zeros dims =
     (if list_all (\<lambda>d. 0 \<le> d) dims
      then Inr \<lparr>shape = map nat dims, elems = replicate (prod_list (map nat dims)) 0\<rparr>
      else Inl ValueError)"

text \<open>A valid index on an axis of length \<open>n\<close>, and the position it names.\<close>

definition index_in_axis :: "nat \<Rightarrow> int \<Rightarrow> bool" where
  "index_in_axis n i \<longleftrightarrow> - int n \<le> i \<and> i < int n"

definition axis_position :: "nat \<Rightarrow> int \<Rightarrow> nat" where
  "axis_position n i = nat (if i < 0 then i + int n else i)"

text \<open>
  \<^verbatim>\<open>image[index] = value\<close> for a 2-D \<^verbatim>\<open>image\<close> and a single integer array \<^verbatim>\<open>index\<close> of
  shape \<open>(nx, ny, k)\<close>: NumPy indexes axis 0 with every entry of \<^verbatim>\<open>index\<close>, so the
  indexing result has shape \<open>(nx, ny, k, my)\<close>. The value of shape \<open>(vx, vy)\<close> must
  broadcast to it (\<^verbatim>\<open>ValueError\<close> otherwise); then every index must be valid on axis 0
  (\<^verbatim>\<open>IndexError\<close> otherwise); then the rows are written in order, later writes winning.
\<close>

definition setitem_rows :: "real ndarray \<Rightarrow> int ndarray \<Rightarrow> real ndarray \<Rightarrow> py_error + real ndarray" where
  "setitem_rows img index val =
     (case (shape img, shape index, shape val) of
        ([mx, my], [nx, ny, k], [vx, vy]) \<Rightarrow>
          if \<not> ((vy = my \<or> vy = 1) \<and> (vx = k \<or> vx = 1)) then Inl ValueError
          else if \<not> list_all (index_in_axis mx) (elems index) then Inl IndexError
          else Inr \<lparr>shape = [mx, my],
                    elems = fold (\<lambda>(t, i) e.
                                let c = t mod k; r = axis_position mx i;
                                    row = map (\<lambda>d. elems val ! ((if vx = 1 then 0 else c) * vy
                                                                + (if vy = 1 then 0 else d)))
                                            [0..<my]
                                in take (r * my) e @ row @ drop (r * my + my) e)
                              (zip [0..<length (elems index)] (elems index)) (elems img)\<rparr>
      | _ \<Rightarrow> Inl IndexError)"

text \<open>
  The loop of \<^verbatim>\<open>assemble_image_stack\<close> over \<^verbatim>\<open>range(index_map.shape[0])\<close>. The right-hand
  side \<^verbatim>\<open>image_stack[l, :, :]\<close> is evaluated first, then \<^verbatim>\<open>index_map[l, :, :, :]\<close>.
\<close>

fun assemble_loop ::
  "real ndarray \<Rightarrow> int ndarray \<Rightarrow> nat list \<Rightarrow> real ndarray \<Rightarrow> py_error + real ndarray" where
  "assemble_loop image_stack index_map [] img = Inr img"
| "assemble_loop image_stack index_map (l # rest) img =
     (if length (shape image_stack) \<noteq> 3 then Inl IndexError
      else case axis0_item image_stack l of
        Inl e \<Rightarrow> Inl e
      | Inr val \<Rightarrow>
          (case axis0_item index_map l of
             Inl e \<Rightarrow> Inl e
           | Inr index \<Rightarrow>
               (case setitem_rows img index val of
                  Inl e \<Rightarrow> Inl e
                | Inr img' \<Rightarrow> assemble_loop image_stack index_map rest img')))"

definition assemble_image_stack :: "real ndarray \<Rightarrow> int ndarray \<Rightarrow> py_error + real ndarray" where
  "assemble_image_stack image_stack index_map =
     (case shape index_map of
        [panels, nx, ny, k] \<Rightarrow>
          (case index_max index_map 0 of
             Inl e \<Rightarrow> Inl e
           | Inr index_max_x \<Rightarrow>
               (case index_max index_map 1 of
                  Inl e \<Rightarrow> Inl e
                | Inr index_max_y \<Rightarrow>
                    (case np_zeros [index_max_x, index_max_y] of
                       Inl e \<Rightarrow> Inl e
                     | Inr img \<Rightarrow> assemble_loop image_stack index_map [0..<panels] img)))
      | _ \<Rightarrow> Inl IndexError)"

text \<open>
  \<^verbatim>\<open>image[:, i0, i1] = value\<close> for a 3-D \<^verbatim>\<open>image\<close> of shape \<open>(s, mx, my)\<close>, the two
  coordinate planes \<^verbatim>\<open>i0 = index_map[l, :, :, 0]\<close> and \<^verbatim>\<open>i1 = index_map[l, :, :, 1]\<close> of
  shape \<open>(nx, ny)\<close>, given as the list of coordinate rows of panel \<open>l\<close>, and a value
  of shape \<open>(s, vx, vy)\<close>: the indexing result has shape \<open>(s, nx, ny)\<close>.
\<close>

definition setitem_scatter ::
  "real ndarray \<Rightarrow> nat \<Rightarrow> nat \<Rightarrow> int list list \<Rightarrow> real ndarray \<Rightarrow> py_error + real ndarray" where
  "setitem_scatter img nx ny coords val =
     (case (shape img, shape val) of
        ([s, mx, my], [s', vx, vy]) \<Rightarrow>
          if \<not> ((vy = ny \<or> vy = 1) \<and> (vx = nx \<or> vx = 1) \<and> (s' = s \<or> s' = 1)) then Inl ValueError
          else if \<not> (list_all (\<lambda>c. index_in_axis mx (c ! 0)) coords \<and>
                      list_all (\<lambda>c. index_in_axis my (c ! 1)) coords) then Inl IndexError
          else Inr \<lparr>shape = [s, mx, my],
                    elems = fold (\<lambda>(j, t, c) e.
                                let a = t div ny; b = t mod ny;
                                    v = elems val ! ((if s' = 1 then 0 else j) * (vx * vy)
                                                     + (if vx = 1 then 0 else a) * vy
                                                     + (if vy = 1 then 0 else b))
                                in e[j * (mx * my) + axis_position mx (c ! 0) * my
                                       + axis_position my (c ! 1) := v])
                              (concat (map (\<lambda>j. map (\<lambda>(t, c). (j, t, c))
                                                    (zip [0..<length coords] coords)) [0..<s]))
                              (elems img)\<rparr>
      | _ \<Rightarrow> Inl IndexError)"

text \<open>\<^verbatim>\<open>image_stack[:, l, :, :]\<close> for a rank-4 stack and \<open>l\<close> below its panel count.\<close>

definition stack_panel :: "real ndarray \<Rightarrow> nat \<Rightarrow> py_error + real ndarray" where
  "stack_panel image_stack l =
     (case shape image_stack of
        [s, p, vx, vy] \<Rightarrow>
          if l < p
          then Inr \<lparr>shape = [s, vx, vy],
                    elems = concat (map (\<lambda>j. take (vx * vy)
                                               (drop (j * (p * (vx * vy)) + l * (vx * vy))
                                                  (elems image_stack)))
                                     [0..<s])\<rparr>
          else Inl IndexError
      | _ \<Rightarrow> Inl IndexError)"

fun assemble_batch_loop ::
  "real ndarray \<Rightarrow> int ndarray \<Rightarrow> nat list \<Rightarrow> real ndarray \<Rightarrow> py_error + real ndarray" where
  "assemble_batch_loop image_stack index_map [] img = Inr img"
| "assemble_batch_loop image_stack index_map (l # rest) img =
     (case stack_panel image_stack l of
        Inl e \<Rightarrow> Inl e
      | Inr val \<Rightarrow>
          (case axis0_item index_map l of
             Inl e \<Rightarrow> Inl e
           | Inr index \<Rightarrow>
               (case shape index of
                  [nx, ny, k] \<Rightarrow>
                    (case setitem_scatter img nx ny (chunks k (elems index)) val of
                       Inl e \<Rightarrow> Inl e
                     | Inr img' \<Rightarrow> assemble_batch_loop image_stack index_map rest img')
                | _ \<Rightarrow> Inl IndexError)))"

definition assemble_image_stack_batch :: "real ndarray \<Rightarrow> int ndarray \<Rightarrow> py_error + real ndarray" where
  "assemble_image_stack_batch image_stack index_map =
     (case shape index_map of
        [panels, nx, ny, k] \<Rightarrow>
          (case index_max index_map 0 of
             Inl e \<Rightarrow> Inl e
           | Inr index_max_x \<Rightarrow>
               (case index_max index_map 1 of
                  Inl e \<Rightarrow> Inl e
                | Inr index_max_y \<Rightarrow>
                    (case shape image_stack of
                       [stack_num, panel_num, vx, vy] \<Rightarrow>
                         (case np_zeros [int stack_num, index_max_x, index_max_y] of
                            Inl e \<Rightarrow> Inl e
                          | Inr img \<Rightarrow>
                              assemble_batch_loop image_stack index_map [0..<panel_num] img)
                     | _ \<Rightarrow> Inl IndexError)))
      | _ \<Rightarrow> Inl IndexError)"

text \<open>
  The identity index map of one panel of shape \<open>(nx, ny)\<close>: pixel \<open>(i, j)\<close> maps to the
  image coordinate \<open>(i, j)\<close>.
\<close>

definition identity_index_map :: "nat \<Rightarrow> nat \<Rightarrow> int ndarray" where
  "identity_index_map nx ny =
     \<lparr>shape = [1, nx, ny, 2],
      elems = concat (map (\<lambda>i. concat (map (\<lambda>j. [int i, int j]) [0..<ny])) [0..<nx])\<rparr>"

section \<open>Properties of the rotation converter\<close>

lemma sqrt_four_sq: "sqrt (4 * (a * a)) * 2 = 4 * \<bar>a\<bar>"
proof -
  have "sqrt (4 * (a * a)) = sqrt ((2 * a)\<^sup>2)" by (simp add: power2_eq_square)
  also have "\<dots> = \<bar>2 * a\<bar>" by (rule real_sqrt_abs)
  finally show ?thesis by (simp add: abs_mult)
qed

lemma quaternion2rot3d_entries:
  "quaternion2rot3d (w, x, y, z) =
     ((1 - 2 * (y * y + z * z), 2 * (x * y - w * z), 2 * (x * z + w * y)),
      (2 * (x * y + w * z), 1 - 2 * (x * x + z * z), 2 * (y * z - w * x)),
      (2 * (x * z - w * y), 2 * (y * z + w * x), 1 - 2 * (x * x + y * y)))"
  by (simp add: quaternion2rot3d_def Let_def)

lemma signed_quot:
  fixes a b :: real
  assumes "a \<noteq> 0" and "c = 4 * (a * b)"
  shows "c / (4 * \<bar>a\<bar>) = (if 0 < a then b else - b)"
  using assms by (auto simp: abs_if field_simps)

lemma quarter_abs: "0.25 * (4 * \<bar>a\<bar>) = (if 0 < a then a else - a)" for a :: real
  by (simp add: abs_if)

lemma rotmat_to_quaternion_tr:
  assumes "r00 + r11 + r22 > 0" and "S = sqrt (r00 + r11 + r22 + 1) * 2"
  shows "rotmat_to_quaternion ((r00, r01, r02), (r10, r11, r12), (r20, r21, r22)) =
           (0.25 * S, (r21 - r12) / S, (r02 - r20) / S, (r10 - r01) / S)"
  using assms by (simp add: rotmat_to_quaternion_def Let_def)

lemma rotmat_to_quaternion_r00:
  assumes "\<not> r00 + r11 + r22 > 0" and "r00 > r11 \<and> r00 > r22"
    and "S = sqrt (1 + r00 - r11 - r22) * 2"
  shows "rotmat_to_quaternion ((r00, r01, r02), (r10, r11, r12), (r20, r21, r22)) =
           ((r21 - r12) / S, 0.25 * S, (r01 + r10) / S, (r02 + r20) / S)"
  using assms by (simp add: rotmat_to_quaternion_def Let_def)

lemma rotmat_to_quaternion_r11:
  assumes "\<not> r00 + r11 + r22 > 0" and "\<not> (r00 > r11 \<and> r00 > r22)" and "r11 > r22"
    and "S = sqrt (1 + r11 - r00 - r22) * 2"
  shows "rotmat_to_quaternion ((r00, r01, r02), (r10, r11, r12), (r20, r21, r22)) =
           ((r02 - r20) / S, (r01 + r10) / S, 0.25 * S, (r12 + r21) / S)"
  using assms by (auto simp add: rotmat_to_quaternion_def Let_def)

lemma rotmat_to_quaternion_r22:
  assumes "\<not> r00 + r11 + r22 > 0" and "\<not> (r00 > r11 \<and> r00 > r22)" and "\<not> r11 > r22"
    and "S = sqrt (1 + r22 - r00 - r11) * 2"
  shows "rotmat_to_quaternion ((r00, r01, r02), (r10, r11, r12), (r20, r21, r22)) =
           ((r10 - r01) / S, (r02 + r20) / S, (r12 + r21) / S, 0.25 * S)"
  using assms by (auto simp add: rotmat_to_quaternion_def Let_def)

lemma roundtrip_components:
  assumes u: "quat_norm2 (w, x, y, z) = 1"
  shows "rotmat_to_quaternion (quaternion2rot3d (w, x, y, z)) = (w, x, y, z) \<or>
         rotmat_to_quaternion (quaternion2rot3d (w, x, y, z)) = quat_neg (w, x, y, z)"
proof -
  have n: "w * w + x * x + y * y + z * z = 1" using u by (simp add: quat_norm2_def)
  define r00 where "r00 = 1 - 2 * (y * y + z * z)"
  define r11 where "r11 = 1 - 2 * (x * x + z * z)"
  define r22 where "r22 = 1 - 2 * (x * x + y * y)"
  define r01 where "r01 = 2 * (x * y - w * z)"
  define r02 where "r02 = 2 * (x * z + w * y)"
  define r10 where "r10 = 2 * (x * y + w * z)"
  define r12 where "r12 = 2 * (y * z - w * x)"
  define r20 where "r20 = 2 * (x * z - w * y)"
  define r21 where "r21 = 2 * (y * z + w * x)"
  note defs = r00_def r11_def r22_def r01_def r02_def r10_def r12_def r20_def r21_def
  have M: "quaternion2rot3d (w, x, y, z) = ((r00, r01, r02), (r10, r11, r12), (r20, r21, r22))"
    unfolding quaternion2rot3d_entries defs ..
  have tr: "r00 + r11 + r22 + 1 = 4 * (w * w)" using n by (simp add: defs algebra_simps)
  have dx: "1 + r00 - r11 - r22 = 4 * (x * x)" by (simp add: defs algebra_simps)
  have dy: "1 + r11 - r00 - r22 = 4 * (y * y)" by (simp add: defs algebra_simps)
  have dz: "1 + r22 - r00 - r11 = 4 * (z * z)" by (simp add: defs algebra_simps)
  have wx: "r21 - r12 = 4 * (w * x)" and wy: "r02 - r20 = 4 * (w * y)"
    and wz: "r10 - r01 = 4 * (w * z)" and xy: "r01 + r10 = 4 * (x * y)"
    and xz: "r02 + r20 = 4 * (x * z)" and yz: "r12 + r21 = 4 * (y * z)"
    by (simp_all add: defs algebra_simps)
  have xw: "r21 - r12 = 4 * (x * w)" and yw: "r02 - r20 = 4 * (y * w)"
    and zw: "r10 - r01 = 4 * (z * w)" and yx: "r01 + r10 = 4 * (y * x)"
    and zx: "r02 + r20 = 4 * (z * x)" and zy: "r12 + r21 = 4 * (z * y)"
    by (simp_all add: wx wy wz xy xz yz)
  have r0011: "r00 > r11 \<longleftrightarrow> x * x > y * y" and r0022: "r00 > r22 \<longleftrightarrow> x * x > z * z"
    and r1122: "r11 > r22 \<longleftrightarrow> y * y > z * z"
    by (auto simp: defs)
  consider (b1) "r00 + r11 + r22 > 0"
    | (b2) "\<not> r00 + r11 + r22 > 0" "r00 > r11 \<and> r00 > r22"
    | (b3) "\<not> r00 + r11 + r22 > 0" "\<not> (r00 > r11 \<and> r00 > r22)" "r11 > r22"
    | (b4) "\<not> r00 + r11 + r22 > 0" "\<not> (r00 > r11 \<and> r00 > r22)" "\<not> r11 > r22"
    by blast
  then show ?thesis
  proof cases
    case b1
    then have nz: "w \<noteq> 0" using tr by auto
    have S: "4 * \<bar>w\<bar> = sqrt (r00 + r11 + r22 + 1) * 2"
      unfolding tr sqrt_four_sq ..
    show ?thesis
      unfolding M rotmat_to_quaternion_tr [OF b1 S]
      by (simp add: signed_quot [OF nz wx] signed_quot [OF nz wy] signed_quot [OF nz wz]
          quarter_abs quat_neg_def)
  next
    case b2
    then have "x * x > y * y" using r0011 by simp
    then have nz: "x \<noteq> 0" using zero_le_square [of y] by auto
    have S: "4 * \<bar>x\<bar> = sqrt (1 + r00 - r11 - r22) * 2"
      unfolding dx sqrt_four_sq ..
    show ?thesis
      unfolding M rotmat_to_quaternion_r00 [OF b2 S]
      by (simp add: signed_quot [OF nz xw] signed_quot [OF nz xy] signed_quot [OF nz xz]
          quarter_abs quat_neg_def)
  next
    case b3
    then have "y * y > z * z" using r1122 by simp
    then have nz: "y \<noteq> 0" using zero_le_square [of z] by auto
    have S: "4 * \<bar>y\<bar> = sqrt (1 + r11 - r00 - r22) * 2"
      unfolding dy sqrt_four_sq ..
    show ?thesis
      unfolding M rotmat_to_quaternion_r11 [OF b3 S]
      by (simp add: signed_quot [OF nz yw] signed_quot [OF nz yx] signed_quot [OF nz yz]
          quarter_abs quat_neg_def)
  next
    case b4
    have nz: "z \<noteq> 0"
    proof
      assume z: "z = 0"
      with b4(3) r1122 have "y * y \<le> 0" by simp
      then have y: "y = 0" by (auto simp: mult_le_0_iff)
      from b4(1) tr have "4 * (w * w) \<le> 1" by simp
      with n z y have "x * x > 0" by simp
      with y z r0011 r0022 b4(2) show False by simp
    qed
    have S: "4 * \<bar>z\<bar> = sqrt (1 + r22 - r00 - r11) * 2"
      unfolding dz sqrt_four_sq ..
    show ?thesis
      unfolding M rotmat_to_quaternion_r22 [OF b4 S]
      by (simp add: signed_quot [OF nz zw] signed_quot [OF nz zx] signed_quot [OF nz zy]
          quarter_abs quat_neg_def)
  qed
qed

text \<open>Each of the four branches is taken by the matrix of some unit quaternion.\<close>

lemma rotmat_branches_reached:
  "rotmat_branch (quaternion2rot3d (1, 0, 0, 0)) = 1"
  "rotmat_branch (quaternion2rot3d (0, 1, 0, 0)) = 2"
  "rotmat_branch (quaternion2rot3d (0, 0, 1, 0)) = 3"
  "rotmat_branch (quaternion2rot3d (0, 0, 0, 1)) = 4"
  by (simp_all add: rotmat_branch_def quaternion2rot3d_def)

text \<open>
  C3. For every unit quaternion \<open>q\<close>, converting to a rotation matrix with
  \<^verbatim>\<open>quaternion2rot3d\<close> and back with \<^verbatim>\<open>rotmat_to_quaternion\<close> gives \<open>q\<close> or \<open>-q\<close>,
  whichever of the four branches the reconstruction takes.
\<close>

theorem rotmat_quaternion_roundtrip:
  assumes "quat_norm2 q = 1"
  shows "rotmat_to_quaternion (quaternion2rot3d q) = q \<or>
         rotmat_to_quaternion (quaternion2rot3d q) = quat_neg q"
proof -
  obtain w x y z where q: "q = (w, x, y, z)" by (cases q) auto
  show ?thesis using assms unfolding q by (rule roundtrip_components)
qed

theorem rotmat_quaternion_roundtrip_witness:
  "quat_norm2 (0, 0, -1, 0) = 1 \<and> rotmat_branch (quaternion2rot3d (0, 0, -1, 0)) = 3 \<and>
   rotmat_to_quaternion (quaternion2rot3d (0, 0, -1, 0)) = quat_neg (0, 0, -1, 0) \<and>
   (rotmat_to_quaternion (quaternion2rot3d (0, 0, -1, 0)) = (0, 0, -1, 0) \<or>
    rotmat_to_quaternion (quaternion2rot3d (0, 0, -1, 0)) = quat_neg (0, 0, -1, 0))"
proof -
  have h: "quat_norm2 (0, 0, -1, 0) = 1" by (simp add: quat_norm2_def)
  have b: "rotmat_branch (quaternion2rot3d (0, 0, -1, 0)) = 3"
    by (simp add: rotmat_branch_def quaternion2rot3d_def)
  have v: "rotmat_to_quaternion (quaternion2rot3d (0, 0, -1, 0)) = quat_neg (0, 0, -1, 0)"
    by (simp add: rotmat_to_quaternion_def quaternion2rot3d_def quat_neg_def)
  show ?thesis using h b v rotmat_quaternion_roundtrip [OF h] by simp
qed

section \<open>Properties of the slice engine\<close>

lemma chunks_Nil [simp]: "chunks n [] = []"
  by (simp add: chunks.simps)

lemma chunks_row_append:
  assumes "length r = n" and "0 < n"
  shows "chunks n (r @ xs) = r # chunks n xs"
  using assms by (subst chunks.simps) auto

lemma chunks_concat:
  assumes "\<forall>r \<in> set rs. length r = n" and "0 < n"
  shows "chunks n (concat rs) = rs"
  using assms by (induction rs) (simp_all add: chunks_row_append)


lemma chunks_rows:
  assumes "length xs = k * n"
  shows "length (chunks n xs) = (if n = 0 then 0 else k) \<and> (\<forall>r \<in> set (chunks n xs). length r = n)"
  using assms
proof (induction k arbitrary: xs)
  case 0
  then show ?case by simp
next
  case (Suc k)
  show ?case
  proof (cases "n = 0")
    case True
    then show ?thesis by (simp add: chunks.simps)
  next
    case False
    with Suc.prems have ne: "xs \<noteq> []" by auto
    have len: "length (drop n xs) = k * n" using Suc.prems by simp
    have "chunks n xs = take n xs # chunks n (drop n xs)"
      using False ne by (subst chunks.simps) simp
    moreover have "length (take n xs) = n" using Suc.prems by simp
    ultimately show ?thesis using Suc.IH [OF len] False by simp
  qed
qed

lemma length_chunks: "length xs = k * n \<Longrightarrow> 0 < n \<Longrightarrow> length (chunks n xs) = k"
  using chunks_rows [of xs k n] by simp

lemma chunks_row_length: "length xs = k * n \<Longrightarrow> r \<in> set (chunks n xs) \<Longrightarrow> length r = n"
  using chunks_rows [of xs k n] by simp





lemma trilinear_weights_length: "length (trilinear_weights fx fy fz) = 8"
  by (simp add: trilinear_weights_def)

lemma length3E:
  assumes "length r = 3"
  obtains x y z where "r = [x, y, z]"
  using assms by (cases r; cases "tl r"; cases "tl (tl r)") auto















text \<open>The stencil of that pixel, evaluated: coordinates \<open>(1, 3/2, 3/4)\<close>, base \<open>(1, 1, 0)\<close>.\<close>

lemma get_weight_and_index_example:
  "get_weight_and_index \<lparr>shape = [1, 3], elems = [0, 1 / 2, - 1 / 4]\<rparr> 1 3 =
     Inr (\<lparr>shape = [1, 8, 3],
           elems = [1, 1, 0,  1, 1, 1,  1, 2, 0,  1, 2, 1,  2, 1, 0,  2, 1, 1,  2, 2, 0,  2, 2, 1]\<rparr>,
          \<lparr>shape = [1, 8], elems = [1 / 8, 3 / 8, 1 / 8, 3 / 8, 0, 0, 0, 0]\<rparr>)"
  by (simp add: get_weight_and_index_def np_reshape_def stencil_entries_def chunks.simps Let_def)

lemma chunks_subset: "r \<in> set (chunks n xs) \<Longrightarrow> set r \<subseteq> set xs"
proof (induction n xs rule: chunks.induct)
  case (1 n xs)
  show ?case
  proof (cases "n = 0 \<or> xs = []")
    case True
    with "1.prems" show ?thesis by (simp add: chunks.simps)
  next
    case False
    then have "chunks n xs = take n xs # chunks n (drop n xs)"
      by (subst chunks.simps) simp
    with "1.prems" consider "r = take n xs" | "r \<in> set (chunks n (drop n xs))" by auto
    then show ?thesis
    proof cases
      case 1
      then show ?thesis by (simp add: set_take_subset)
    next
      case 2
      then have "set r \<subseteq> set (drop n xs)" using "1.IH" [OF False] by simp
      then show ?thesis using set_drop_subset [of n xs] by blast
    qed
  qed
qed














section \<open>Properties of the angle-axis converters\<close>













text \<open>The identity rotation of the specification's example.\<close>

lemma angle_axis_to_quaternion_identity:
  "angle_axis_to_quaternion (AxisName ''x'') 0 = Inr (1, 0, 0, 0)"
  by (simp add: angle_axis_to_quaternion_def axis_vector_def str_lower_def lower_char_def
      normalized_def linalg_norm_def Let_def)

section \<open>Properties of the orientation sampler\<close>

lemma angle_axis_to_quaternion_y:
  "angle_axis_to_quaternion (AxisName ''y'') (d * pi / 180) = Inr (axis_rotation_quat (0, 1, 0) d)"
  by (simp add: angle_axis_to_quaternion_def axis_vector_def str_lower_def lower_char_def
      normalized_def linalg_norm_def axis_rotation_quat_def Let_def)

lemma angle_axis_to_quaternion_x:
  "angle_axis_to_quaternion (AxisName ''x'') (d * pi / 180) = Inr (axis_rotation_quat (1, 0, 0) d)"
  by (simp add: angle_axis_to_quaternion_def axis_vector_def str_lower_def lower_char_def
      normalized_def linalg_norm_def axis_rotation_quat_def Let_def)

lemma points_on_1sphere_loop_entries:
  assumes q: "\<And>d. angle_axis_to_quaternion (AxisName nm) (d * pi / 180) = Inr (axis_rotation_quat ax d)"
    and len: "length points = n" and k: "k \<le> n"
  shows "points_on_1sphere_loop nm inc [k..<n] a points =
           Inr (take k points @ map (\<lambda>i. axis_rotation_quat ax (a + real (i - k) * inc)) [k..<n])"
  using len k
proof (induction "n - k" arbitrary: k a points)
  case 0
  then show ?case by simp
next
  case (Suc m)
  then have kn: "k < n" and m: "m = n - Suc k" by simp_all
  have range: "[k..<n] = k # [Suc k..<n]" using kn by (simp add: upt_conv_Cons)
  let ?q = "axis_rotation_quat ax a"
  have len': "length (points[k := ?q]) = n" using Suc.prems by simp
  have tk: "take (Suc k) (points[k := ?q]) = take k points @ [?q]"
    using kn Suc.prems by (simp add: take_Suc_conv_app_nth)
  have shift: "a + inc + real (i - Suc k) * inc = a + real (i - k) * inc" if "Suc k \<le> i" for i
    using that by (simp add: algebra_simps)
  have "points_on_1sphere_loop nm inc [k..<n] a points =
        points_on_1sphere_loop nm inc [Suc k..<n] (a + inc) (points[k := ?q])"
    unfolding range by (simp add: q)
  also have "\<dots> = Inr (take (Suc k) (points[k := ?q]) @
        map (\<lambda>i. axis_rotation_quat ax (a + inc + real (i - Suc k) * inc)) [Suc k..<n])"
    using Suc.hyps(1) [OF m len'] kn by simp
  also have "map (\<lambda>i. axis_rotation_quat ax (a + inc + real (i - Suc k) * inc)) [Suc k..<n] =
             map (\<lambda>i. axis_rotation_quat ax (a + real (i - k) * inc)) [Suc k..<n]"
  proof (rule map_cong)
    fix i assume "i \<in> set [Suc k..<n]"
    then have "Suc k \<le> i" by simp
    then show "axis_rotation_quat ax (a + inc + real (i - Suc k) * inc) =
               axis_rotation_quat ax (a + real (i - k) * inc)"
      by (simp only: shift)
  qed simp
  finally show ?case unfolding range tk by simp
qed

lemma points_on_1sphere_y:
  assumes "1 \<le> num_pts"
  shows "points_on_1sphere num_pts ''y'' =
           Inr (map (\<lambda>i. axis_rotation_quat (0, 1, 0) (real i * (360 / real num_pts))) [0..<num_pts])"
  using assms
    points_on_1sphere_loop_entries [of "''y''" "(0, 1, 0)" "replicate num_pts (0, 0, 0, 0)" num_pts 0
      "360 / real num_pts" 0, OF angle_axis_to_quaternion_y]
  by (simp add: points_on_1sphere_def Let_def)

lemma points_on_1sphere_z:
  assumes "1 \<le> num_pts"
  shows "points_on_1sphere num_pts ''z'' =
           Inr (map (\<lambda>i. axis_rotation_quat (1, 0, 0) (real i * (360 / real num_pts))) [0..<num_pts])"
  using assms
    points_on_1sphere_loop_entries [of "''x''" "(1, 0, 0)" "replicate num_pts (0, 0, 0, 0)" num_pts 0
      "360 / real num_pts" 0, OF angle_axis_to_quaternion_x]
  by (simp add: points_on_1sphere_def Let_def)

lemma points_on_1sphere_other:
  assumes "1 \<le> num_pts" and "rotation_axis \<noteq> ''y''" and "rotation_axis \<noteq> ''z''"
  shows "points_on_1sphere num_pts rotation_axis = Inr (replicate num_pts (0, 0, 0, 0))"
  using assms by (simp add: points_on_1sphere_def Let_def)

text \<open>
  C6. \<^verbatim>\<open>points_on_1sphere(num_pts, axis)\<close> should return, for a supported axis, the
  rotations by \<open>i \<cdot> 360 / num_pts\<close> degrees about that axis. For \<open>'y'\<close> it does
  (\<open>points_on_1sphere_y\<close>) and for an unsupported axis it returns zeros
  (\<open>points_on_1sphere_other\<close>), but the \<open>'z'\<close> branch passes \<open>'x'\<close> to
  \<^verbatim>\<open>angle_axis_to_quaternion\<close>: with 2 points about \<open>'z'\<close> the second entry is the
  half turn about x, \<open>(0, 1, 0, 0)\<close>, not the half turn about z, \<open>(0, 0, 0, 1)\<close>.
\<close>

theorem points_on_1sphere_z_rotates_about_x:
  "points_on_1sphere 2 ''z'' = Inr [(1, 0, 0, 0), (0, 1, 0, 0)] \<and>
   axis_rotation_quat (1, 0, 0) 180 = (0, 1, 0, 0) \<and>
   axis_rotation_quat (0, 0, 1) 180 = (0, 0, 0, 1)"
proof -
  have u: "[0..<2] = [0, 1]" by (simp add: upt_conv_Cons)
  have "points_on_1sphere 2 ''z'' =
      Inr [axis_rotation_quat (1, 0, 0) 0, axis_rotation_quat (1, 0, 0) 180]"
    using points_on_1sphere_z [of 2] unfolding u by simp
  then show ?thesis by (simp add: axis_rotation_quat_def)
qed

section \<open>Properties of the reciprocal-space projector\<close>












section \<open>Properties of the panel assembler\<close>

lemma fold_max_mem: "fold max rest (x :: int) \<in> set (x # rest)"
proof (induction rest arbitrary: x)
  case Nil
  show ?case by simp
next
  case (Cons y rest)
  have ih: "fold max rest (max y x) \<in> set (max y x # rest)" by (rule Cons.IH)
  have "max y x = x \<or> max y x = y" by (simp add: max_def)
  then show ?case
  proof
    assume "max y x = x"
    with ih show ?thesis by auto
  next
    assume "max y x = y"
    with ih show ?thesis by auto
  qed
qed

lemma np_max_mem: "np_max xs = Inr m \<Longrightarrow> m \<in> set xs"
  using fold_max_mem by (auto simp: np_max_def split: list.splits)

lemma column_mem:
  assumes len: "length (elems a) = n * last (shape a)"
    and col: "last_axis_column a j = Inr column" and m: "m \<in> set column"
  shows "m \<in> set (elems a)"
proof -
  let ?k = "last (shape a)"
  from col have j: "j < ?k" and c: "column = map (\<lambda>r. r ! j) (chunks ?k (elems a))"
    by (auto simp: last_axis_column_def Let_def split: if_splits)
  from m c obtain r where r: "r \<in> set (chunks ?k (elems a))" and mr: "m = r ! j" by auto
  have "length r = ?k" using chunks_row_length [OF len r] .
  with j mr have "m \<in> set r" by simp
  with chunks_subset [OF r] show ?thesis by blast
qed

lemma slice_mem:
  assumes len: "length xs = p * m" and x: "x \<in> set xs"
  shows "\<exists>l < p. x \<in> set (take m (drop (l * m) xs))"
proof -
  from x obtain t where t: "t < length xs" and xt: "xs ! t = x" by (auto simp: in_set_conv_nth)
  have m0: "0 < m" using t len by (cases m) auto
  let ?l = "t div m"
  have lp: "?l < p" using t len m0 by (simp add: less_mult_imp_div_less)
  have pos: "?l * m + t mod m = t" by simp
  have "t mod m < length (take m (drop (?l * m) xs))"
    using t m0 by (simp add: less_diff_conv add.commute [of "t mod m"] pos)
  moreover have "take m (drop (?l * m) xs) ! (t mod m) = x"
  proof -
    have "?l * m \<le> t" by simp
    then have le: "?l * m \<le> length xs" using t by linarith
    have "take m (drop (?l * m) xs) ! (t mod m) = drop (?l * m) xs ! (t mod m)"
      using m0 by simp
    also have "\<dots> = xs ! (?l * m + t mod m)" using le by (simp add: nth_drop)
    also have "\<dots> = x" unfolding pos by (rule xt)
    finally show ?thesis .
  qed
  ultimately have "x \<in> set (take m (drop (?l * m) xs))" by (metis nth_mem)
  with lp show ?thesis by blast
qed

lemma setitem_rows_shape:
  "setitem_rows img index val = Inr img' \<Longrightarrow> shape img' = shape img"
  by (auto simp: setitem_rows_def split: list.splits if_splits prod.splits)

lemma setitem_rows_bounds:
  assumes "setitem_rows img index val = Inr img'" and "shape img = [mx, my]"
  shows "list_all (index_in_axis mx) (elems index)"
  using assms by (auto simp: setitem_rows_def split: list.splits if_splits prod.splits)

lemma assemble_loop_bounds:
  assumes "assemble_loop image_stack index_map ls img = Inr out" and "shape img = [mx, my]"
    and "l \<in> set ls"
  shows "\<exists>index. axis0_item index_map l = Inr index \<and> list_all (index_in_axis mx) (elems index)"
  using assms
proof (induction ls arbitrary: img)
  case Nil
  then show ?case by simp
next
  case (Cons a ls)
  from Cons.prems(1) obtain val index img' where
    ix: "axis0_item index_map a = Inr index"
    and st: "setitem_rows img index val = Inr img'"
    and rest: "assemble_loop image_stack index_map ls img' = Inr out"
    by (auto split: if_splits sum.splits)
  have sh': "shape img' = [mx, my]"
    using setitem_rows_shape [OF st] Cons.prems(2) by simp
  show ?case
  proof (cases "l = a")
    case True
    with ix setitem_rows_bounds [OF st Cons.prems(2)] show ?thesis by blast
  next
    case False
    with Cons.prems(3) have "l \<in> set ls" by simp
    from Cons.IH [OF rest sh' this] show ?thesis .
  qed
qed

text \<open>
  Whatever the panels hold, \<^verbatim>\<open>assemble_image_stack\<close> does not return an image: the image
  has \<open>index_max_x\<close> rows, and the panel that holds \<open>index_max_x\<close> uses it as a row index.
\<close>

lemma assemble_image_stack_never_returns:
  assumes ws: "well_shaped index_map"
  shows "assemble_image_stack image_stack index_map \<noteq> Inr out"
proof
  assume ret: "assemble_image_stack image_stack index_map = Inr out"
  then obtain panels nx ny k where sh: "shape index_map = [panels, nx, ny, k]"
    by (auto simp: assemble_image_stack_def split: list.splits)
  from ret sh obtain mx my img where
    mx: "index_max index_map 0 = Inr mx"
    and zs: "np_zeros [mx, my] = Inr img"
    and loop: "assemble_loop image_stack index_map [0..<panels] img = Inr out"
    by (auto simp: assemble_image_stack_def split: sum.splits)
  from zs have mx0: "0 \<le> mx" and shi: "shape img = [nat mx, nat my]"
    by (auto simp: np_zeros_def split: if_splits)
  have len: "length (elems index_map) = panels * (nx * (ny * k))"
    using ws sh by (simp add: well_shaped_def)
  from mx obtain column where col: "last_axis_column index_map 0 = Inr column"
    and nm: "np_max column = Inr mx"
    by (auto simp: index_max_def split: sum.splits)
  have lenk: "length (elems index_map) = (panels * nx * ny) * last (shape index_map)"
    using len sh by simp
  have "mx \<in> set (elems index_map)"
    using column_mem [OF lenk col np_max_mem [OF nm]] .
  from slice_mem [OF len this] obtain l where lp: "l < panels"
    and inl: "mx \<in> set (take (nx * (ny * k)) (drop (l * (nx * (ny * k))) (elems index_map)))"
    by blast
  from lp have "l \<in> set [0..<panels]" by simp
  from assemble_loop_bounds [OF loop shi this] obtain index where
    ix: "axis0_item index_map l = Inr index" and b: "list_all (index_in_axis (nat mx)) (elems index)"
    by blast
  from ix sh lp have "elems index = take (nx * (ny * k)) (drop (l * (nx * (ny * k))) (elems index_map))"
    by (auto simp: axis0_item_def)
  with inl b have "index_in_axis (nat mx) mx" by (simp add: list_all_iff)
  then show False using mx0 by (simp add: index_in_axis_def)
qed

lemma chunks_append:
  assumes "length xs = a * k"
  shows "chunks k (xs @ ys) = chunks k xs @ chunks k ys"
  using assms
proof (induction a arbitrary: xs)
  case 0
  then show ?case by simp
next
  case (Suc a)
  show ?case
  proof (cases "k = 0")
    case True
    then show ?thesis by (simp add: chunks.simps)
  next
    case False
    with Suc.prems have ne: "xs \<noteq> []" by auto
    have lt: "length (take k xs) = k" using Suc.prems by simp
    have ld: "length (drop k xs) = a * k" using Suc.prems by simp
    have "xs @ ys = take k xs @ (drop k xs @ ys)"
      by (simp only: append_assoc [symmetric] append_take_drop_id)
    then have "chunks k (xs @ ys) = chunks k (take k xs @ (drop k xs @ ys))" by (rule arg_cong)
    also have "\<dots> = take k xs # chunks k (drop k xs @ ys)"
      using False lt by (simp only: chunks_row_append)
    also have "\<dots> = (take k xs # chunks k (drop k xs)) @ chunks k ys"
      using Suc.IH [OF ld] by simp
    also have "take k xs # chunks k (drop k xs) = chunks k xs"
      using False ne by (subst (2) chunks.simps) simp
    finally show ?thesis .
  qed
qed

lemma chunk_in_slice:
  assumes len: "length xs = p * (q * k)" and r: "r \<in> set (chunks k xs)"
  shows "\<exists>l < p. r \<in> set (chunks k (take (q * k) (drop (l * (q * k)) xs)))"
  using len r
proof (induction p arbitrary: xs)
  case 0
  then show ?case by simp
next
  case (Suc p)
  let ?m = "q * k"
  have lt: "length (take ?m xs) = q * k" using Suc.prems(1) by simp
  have ld: "length (drop ?m xs) = p * ?m" using Suc.prems(1) by simp
  have "chunks k xs = chunks k (take ?m xs @ drop ?m xs)" by simp
  also have "\<dots> = chunks k (take ?m xs) @ chunks k (drop ?m xs)"
    by (rule chunks_append [OF lt])
  finally have "r \<in> set (chunks k (take ?m xs)) \<or> r \<in> set (chunks k (drop ?m xs))"
    using Suc.prems(2) by auto
  then show ?case
  proof
    assume "r \<in> set (chunks k (take ?m xs))"
    then have "r \<in> set (chunks k (take ?m (drop (0 * ?m) xs)))" by simp
    then show ?thesis by blast
  next
    assume "r \<in> set (chunks k (drop ?m xs))"
    from Suc.IH [OF ld this] obtain l where l: "l < p"
      and rl: "r \<in> set (chunks k (take ?m (drop (l * ?m) (drop ?m xs))))" by blast
    have "drop (l * ?m) (drop ?m xs) = drop (Suc l * ?m) xs" by (simp add: add.commute)
    with rl l show ?thesis by (metis Suc_less_eq)
  qed
qed

lemma setitem_scatter_shape:
  "setitem_scatter img nx ny coords val = Inr img' \<Longrightarrow> shape img' = shape img"
  by (auto simp: setitem_scatter_def split: list.splits if_splits prod.splits)

lemma setitem_scatter_bounds:
  assumes "setitem_scatter img nx ny coords val = Inr img'" and "shape img = [s, mx, my]"
  shows "list_all (\<lambda>c. index_in_axis mx (c ! 0)) coords"
  using assms by (auto simp: setitem_scatter_def split: list.splits if_splits prod.splits)

lemma assemble_batch_loop_bounds:
  assumes "assemble_batch_loop image_stack index_map ls img = Inr out"
    and "shape img = [s, mx, my]" and "l \<in> set ls"
  shows "\<exists>index nx ny k. axis0_item index_map l = Inr index \<and> shape index = [nx, ny, k] \<and>
           list_all (\<lambda>c. index_in_axis mx (c ! 0)) (chunks k (elems index))"
  using assms
proof (induction ls arbitrary: img)
  case Nil
  then show ?case by simp
next
  case (Cons a ls)
  from Cons.prems(1) obtain val index nx ny k img' where
    ix: "axis0_item index_map a = Inr index" and shx: "shape index = [nx, ny, k]"
    and st: "setitem_scatter img nx ny (chunks k (elems index)) val = Inr img'"
    and rest: "assemble_batch_loop image_stack index_map ls img' = Inr out"
    by (auto split: sum.splits list.splits)
  have sh': "shape img' = [s, mx, my]"
    using setitem_scatter_shape [OF st] Cons.prems(2) by simp
  show ?case
  proof (cases "l = a")
    case True
    with ix shx setitem_scatter_bounds [OF st Cons.prems(2)] show ?thesis by blast
  next
    case False
    with Cons.prems(3) have "l \<in> set ls" by simp
    from Cons.IH [OF rest sh' this] show ?thesis .
  qed
qed

text \<open>
  The batch version has the same allocation: when the stack has as many panels as the
  index map, it does not return images either.
\<close>

lemma assemble_image_stack_batch_never_returns:
  assumes ws: "well_shaped index_map"
    and shm: "shape index_map = [panels, nx, ny, k]"
    and shs: "shape image_stack = [stack_num, panels, vx, vy]"
  shows "assemble_image_stack_batch image_stack index_map \<noteq> Inr out"
proof
  assume ret: "assemble_image_stack_batch image_stack index_map = Inr out"
  from ret shm shs obtain mx my img where
    mx: "index_max index_map 0 = Inr mx"
    and zs: "np_zeros [int stack_num, mx, my] = Inr img"
    and loop: "assemble_batch_loop image_stack index_map [0..<panels] img = Inr out"
    by (auto simp: assemble_image_stack_batch_def split: sum.splits)
  from zs have mx0: "0 \<le> mx" and shi: "shape img = [stack_num, nat mx, nat my]"
    by (auto simp: np_zeros_def split: if_splits)
  have len: "length (elems index_map) = panels * ((nx * ny) * k)"
    using ws shm by (simp add: well_shaped_def)
  from mx obtain column where col: "last_axis_column index_map 0 = Inr column"
    and nm: "np_max column = Inr mx"
    by (auto simp: index_max_def split: sum.splits)
  from col shm have k0: "0 < k" and c: "column = map (\<lambda>r. r ! 0) (chunks k (elems index_map))"
    by (auto simp: last_axis_column_def Let_def split: if_splits)
  from np_max_mem [OF nm] c obtain r where r: "r \<in> set (chunks k (elems index_map))"
    and mr: "mx = r ! 0" by auto
  from chunk_in_slice [OF len r] obtain l where lp: "l < panels"
    and rl: "r \<in> set (chunks k (take ((nx * ny) * k) (drop (l * ((nx * ny) * k)) (elems index_map))))"
    by blast
  from lp have "l \<in> set [0..<panels]" by simp
  from assemble_batch_loop_bounds [OF loop shi this] obtain index nx' ny' k' where
    ix: "axis0_item index_map l = Inr index" and shx: "shape index = [nx', ny', k']"
    and b: "list_all (\<lambda>c. index_in_axis (nat mx) (c ! 0)) (chunks k' (elems index))"
    by blast
  from ix shm lp have e: "elems index = take ((nx * ny) * k) (drop (l * ((nx * ny) * k)) (elems index_map))"
    and "shape index = [nx, ny, k]"
    by (auto simp: axis0_item_def mult.assoc)
  with shx have "k' = k" by simp
  with b e rl have "index_in_axis (nat mx) (r ! 0)" by (simp add: list_all_iff)
  then show False using mx0 mr by (simp add: index_in_axis_def)
qed

lemma upt2: "[0..<2] = [0, 1]" by (simp add: upt_conv_Cons)

lemma identity_index_map_2_2:
  "identity_index_map 2 2 = \<lparr>shape = [1, 2, 2, 2], elems = [0, 0, 0, 1, 1, 0, 1, 1]\<rparr>"
  by (simp add: identity_index_map_def upt2)

lemma identity_2_2_facts:
  "shape (identity_index_map 2 2) = [1, 2, 2, 2]"
  "index_max (identity_index_map 2 2) 0 = Inr 1"
  "index_max (identity_index_map 2 2) (Suc 0) = Inr 1"
  "axis0_item (identity_index_map 2 2) 0 =
     Inr \<lparr>shape = [2, 2, 2], elems = [0, 0, 0, 1, 1, 0, 1, 1]\<rparr>"
  by (simp_all add: identity_index_map_2_2 index_max_def last_axis_column_def chunks.simps
      np_max_def axis0_item_def)

lemma zeros_1_1: "np_zeros [1, 1] = Inr \<lparr>shape = [1, 1], elems = [0]\<rparr>"
  by (simp add: np_zeros_def)

lemma zeros_1_1_1: "np_zeros [1, 1, 1] = Inr \<lparr>shape = [1, 1, 1], elems = [0]\<rparr>"
  by (simp add: np_zeros_def)

text \<open>
  C4. For a single panel whose index map is the identity, \<^verbatim>\<open>assemble_image_stack\<close> should
  return the panel's values in an image of the panel's shape. On the 2x2 panel
  \<open>[[1, 2], [3, 4]]\<close> the code allocates a 1x1 image (the maximum index, not the
  maximum index plus one) and indexes its axis 0 with the whole index array: the
  assignment raises instead of returning \<open>[[1, 2], [3, 4]]\<close>.
\<close>

theorem assemble_identity_panel_raises:
  "assemble_image_stack \<lparr>shape = [1, 2, 2], elems = [1, 2, 3, 4]\<rparr> (identity_index_map 2 2) =
     Inl ValueError"
  by (simp add: assemble_image_stack_def identity_2_2_facts zeros_1_1 axis0_item_def
      setitem_rows_def)

text \<open>
  C5. For a stack of one entry, slot 0 of \<^verbatim>\<open>assemble_image_stack_batch(S, M)\<close> should be the
  image \<^verbatim>\<open>assemble_image_stack(S[0], M)\<close>. On the 2x2 panel with the identity map the batch
  version raises \<^verbatim>\<open>IndexError\<close> (index 1 on an axis of length 1) and the single version,
  applied to \<open>S[0]\<close>, raises \<^verbatim>\<open>ValueError\<close>: neither gives an image.
\<close>

theorem assemble_batch_and_single_raise:
  "assemble_image_stack_batch \<lparr>shape = [1, 1, 2, 2], elems = [1, 2, 3, 4]\<rparr> (identity_index_map 2 2) =
     Inl IndexError \<and>
   axis0_item \<lparr>shape = [1, 1, 2, 2], elems = [1, 2, 3, 4 :: real]\<rparr> 0 =
     Inr \<lparr>shape = [1, 2, 2], elems = [1, 2, 3, 4]\<rparr> \<and>
   assemble_image_stack \<lparr>shape = [1, 2, 2], elems = [1, 2, 3, 4]\<rparr> (identity_index_map 2 2) =
     Inl ValueError"
proof -
  have a: "assemble_image_stack_batch \<lparr>shape = [1, 1, 2, 2], elems = [1, 2, 3, 4]\<rparr> (identity_index_map 2 2) =
     Inl IndexError"
    by (simp add: assemble_image_stack_batch_def identity_2_2_facts zeros_1_1_1
        stack_panel_def setitem_scatter_def chunks.simps index_in_axis_def)
  have b: "axis0_item \<lparr>shape = [1, 1, 2, 2], elems = [1, 2, 3, 4 :: real]\<rparr> 0 =
     Inr \<lparr>shape = [1, 2, 2], elems = [1, 2, 3, 4]\<rparr>"
    by (simp add: axis0_item_def)
  have c: "assemble_image_stack \<lparr>shape = [1, 2, 2], elems = [1, 2, 3, 4]\<rparr> (identity_index_map 2 2) =
     Inl ValueError"
    by (simp add: assemble_image_stack_def identity_2_2_facts zeros_1_1 axis0_item_def
        setitem_rows_def)
  show ?thesis using a b c by simp
qed

section \<open>Properties of \<^verbatim>\<open>take_n_random_slices\<close>\<close>

lemma undefined_names:
  "geometry_namespace ''length'' = None" "geometry_namespace ''quat2rot3d'' = None"
  by (simp_all add: geometry_namespace_def module_globals_def python_builtins_def)

text \<open>
  C10. For every detector, volume, voxel length and orientation sequence,
  \<^verbatim>\<open>take_n_random_slices\<close> raises \<^verbatim>\<open>NameError\<close> at its first statement, before any slice is
  produced: neither \<^verbatim>\<open>length\<close> nor \<^verbatim>\<open>quat2rot3d\<close> is bound in the module or in the builtins,
  so the \<^verbatim>\<open>return slices\<close> is never reached.
\<close>

theorem take_n_random_slices_raises_name_error:
  "take_n_random_slices det volume voxel_length orientations = Inl (NameError ''length'') \<and>
   geometry_namespace ''length'' = None \<and> geometry_namespace ''quat2rot3d'' = None"
  by (simp add: take_n_random_slices_def take_n_random_slices_in_def undefined_names)

text \<open>
  Were \<^verbatim>\<open>length\<close> bound to \<^verbatim>\<open>len\<close>, the first pass of the loop would raise on the second
  unbound name.
\<close>

lemma take_n_random_slices_second_undefined_name:
  assumes "orientations \<noteq> []" and "shape (pixel_rms det) = [p0, p1, p2]"
  shows "take_n_random_slices_in (geometry_namespace(''length'' \<mapsto> CountFunction length))
           det volume voxel_length orientations = Inl (NameError ''quat2rot3d'')"
proof -
  obtain q qs where o: "orientations = q # qs" using assms(1) by (cases orientations) auto
  have r: "[0..<Suc (length qs)] = 0 # [Suc 0..<Suc (length qs)]"
    by (rule upt_conv_Cons) simp
  show ?thesis
    unfolding take_n_random_slices_in_def o
    by (simp add: assms(2) r undefined_names del: upt_Suc)
qed

section \<open>Properties of the random and the uniform sampler\<close>

lemma chunks_three:
  assumes "length xs = 3 * n" and "0 < n"
  shows "\<exists>u1 u2 u3. chunks n xs = [u1, u2, u3] \<and> length u1 = n \<and> length u2 = n \<and> length u3 = n"
proof -
  have len: "length xs = 3 * n" by fact
  have l3: "length (chunks n xs) = 3" using length_chunks [of xs 3 n] assms by simp
  then obtain u1 u2 u3 where c: "chunks n xs = [u1, u2, u3]" by (rule length3E)
  have "\<forall>r \<in> set (chunks n xs). length r = n" using chunks_row_length [of xs 3 n] len by blast
  with c show ?thesis by simp
qed

text \<open>
  \<^verbatim>\<open>get_random_quat(n)\<close> returns, for every draw of the random source, an array of
  \<open>n\<close> rows of 4 entries.
\<close>

lemma get_random_quat_rows:
  assumes ws: "well_shaped u" and sh: "shape u = [3, num_pts]" and n: "1 \<le> num_pts"
  shows "\<exists>quat. get_random_quat num_pts u = Inr quat \<and> shape quat = [num_pts, 4] \<and>
           well_shaped quat \<and> length (chunks 4 (elems quat)) = num_pts \<and>
           list_all (\<lambda>row. length row = 4) (chunks 4 (elems quat))"
proof -
  have len: "length (elems u) = 3 * num_pts" using ws sh by (simp add: well_shaped_def)
  obtain u1 u2 u3 where c: "chunks num_pts (elems u) = [u1, u2, u3]"
    using chunks_three [OF len] n by auto
  define quat where "quat = [map2 (\<lambda>a b. sqrt (1 - a) * sin (2 * pi * b)) u1 u2,
                      map2 (\<lambda>a b. sqrt (1 - a) * cos (2 * pi * b)) u1 u2,
                      map2 (\<lambda>a b. sqrt a * sin (2 * pi * b)) u1 u3,
                      map2 (\<lambda>a b. sqrt a * cos (2 * pi * b)) u1 u3]"
  have val: "get_random_quat num_pts u =
      Inr \<lparr>shape = [num_pts, 4], elems = concat (np_transpose2 num_pts quat)\<rparr>"
    by (simp add: get_random_quat_def c quat_def Let_def)
  have rows: "\<forall>r \<in> set (np_transpose2 num_pts quat). length r = 4"
    by (simp add: np_transpose2_def quat_def)
  have ch: "chunks 4 (concat (np_transpose2 num_pts quat)) = np_transpose2 num_pts quat"
    by (rule chunks_concat [OF rows]) simp
  have lr: "length (np_transpose2 num_pts quat) = num_pts" by (simp add: np_transpose2_def)
  have "length (concat (np_transpose2 num_pts quat)) = sum_list (map (\<lambda>r. 4) (np_transpose2 num_pts quat))"
    unfolding length_concat using rows by (intro arg_cong [where f = sum_list] map_cong) auto
  then have lc: "length (concat (np_transpose2 num_pts quat)) = num_pts * 4"
    by (simp add: sum_list_triv lr)
  show ?thesis
    unfolding val using rows by (simp add: ch lr lc well_shaped_def list_all_iff)
qed

lemma keeps_length_simps [simp]:
  "keeps_length points (Inl e)" "keeps_length points (Inr (i, p)) \<longleftrightarrow> length p = length points"
  by (simp_all add: keeps_length_def)

lemma sweep_w3_length:
  assumes "sweep_w3 w1 w2 delta_w3 w3 ind points = Some y"
  shows "keeps_length points y"
proof (rule sweep_w3.raw_induct [where P = "\<lambda>w1 w2 d w3 ind points y. keeps_length points y"])
  show "sweep_w3 w1 w2 delta_w3 w3 ind points = Some y" by fact
next
  fix f :: "real \<Rightarrow> real \<Rightarrow> real \<Rightarrow> real \<Rightarrow> nat \<Rightarrow> quat list \<Rightarrow> (py_error + nat \<times> quat list) option"
  fix w1 w2 d w3 :: real and ind and points :: "quat list" and y
  assume ih: "\<And>w2 d w3 ind points b y. f w2 d w3 ind points b = Some y \<Longrightarrow> keeps_length b y"
  assume body: "(if w3 < 2 * pi
      then if ind < length points
           then f w1 w2 d (w3 + d) (ind + 1)
                 (points[ind := (cos w1, sin w1 * cos w2, sin w1 * sin w2 * cos w3,
                      sin w1 * sin w2 * sin w3)])
           else Some (Inl IndexError)
      else Some (Inr (ind, points))) = Some y"
  show "keeps_length points y"
  proof (cases "w3 < 2 * pi \<and> ind < length points")
    case True
    with body have "f w1 w2 d (w3 + d) (ind + 1)
                 (points[ind := (cos w1, sin w1 * cos w2, sin w1 * sin w2 * cos w3,
                      sin w1 * sin w2 * sin w3)]) = Some y" by simp
    from ih [OF this] show ?thesis by (cases y) (auto simp: keeps_length_def)
  next
    case False
    with body show ?thesis by (auto split: if_splits)
  qed
qed

lemma sweep_w2_length:
  assumes "sweep_w2 w1 delta_w2 w2 ind points = Some y"
  shows "keeps_length points y"
proof (rule sweep_w2.raw_induct [where P = "\<lambda>w1 d w2 ind points y. keeps_length points y"])
  show "sweep_w2 w1 delta_w2 w2 ind points = Some y" by fact
next
  fix f :: "real \<Rightarrow> real \<Rightarrow> real \<Rightarrow> nat \<Rightarrow> quat list \<Rightarrow> (py_error + nat \<times> quat list) option"
  fix w1 d w2 :: real and ind and points :: "quat list" and y
  assume ih: "\<And>d w2 ind points b y. f d w2 ind points b = Some y \<Longrightarrow> keeps_length b y"
  assume body: "(if w2 < pi
      then Option.bind (sweep_w3 w1 w2 (d / sin w2) (5 / 10 * (d / sin w2)) ind points)
            (\<lambda>r. case r of Inl e \<Rightarrow> Some (Inl e)
                 | Inr s \<Rightarrow> f w1 d (w2 + d) (fst s) (snd s))
      else Some (Inr (ind, points))) = Some y"
  show "keeps_length points y"
  proof (cases "w2 < pi")
    case True
    with body obtain r where
      r: "sweep_w3 w1 w2 (d / sin w2) (5 / 10 * (d / sin w2)) ind points = Some r"
      and k: "(case r of Inl e \<Rightarrow> Some (Inl e) | Inr s \<Rightarrow> f w1 d (w2 + d) (fst s) (snd s)) = Some y"
      by (auto simp only: if_True bind_eq_Some_conv)
    show ?thesis
    proof (cases r)
      case (Inl e)
      with k show ?thesis by auto
    next
      case (Inr s)
      have lp: "length (snd s) = length points"
        using sweep_w3_length [OF r] Inr by (simp add: keeps_length_def)
      from k Inr have "f w1 d (w2 + d) (fst s) (snd s) = Some y" by simp
      from ih [OF this] lp show ?thesis by (auto simp: keeps_length_def split: sum.splits)
    qed
  next
    case False
    with body show ?thesis by auto
  qed
qed

lemma sweep_w1_length:
  assumes "sweep_w1 delta_w1 w1 ind points = Some y"
  shows "keeps_length points y"
proof (rule sweep_w1.raw_induct [where P = "\<lambda>d w1 ind points y. keeps_length points y"])
  show "sweep_w1 delta_w1 w1 ind points = Some y" by fact
next
  fix f :: "real \<Rightarrow> real \<Rightarrow> nat \<Rightarrow> quat list \<Rightarrow> (py_error + nat \<times> quat list) option"
  fix d w1 :: real and ind and points :: "quat list" and y
  assume ih: "\<And>w1 ind points b y. f w1 ind points b = Some y \<Longrightarrow> keeps_length b y"
  assume body: "(if w1 < pi
      then Option.bind (sweep_w2 w1 (d / sin w1) (5 / 10 * (d / sin w1)) ind points)
            (\<lambda>r. case r of Inl e \<Rightarrow> Some (Inl e)
                 | Inr s \<Rightarrow> f d (w1 + d) (fst s) (snd s))
      else Some (Inr (ind, points))) = Some y"
  show "keeps_length points y"
  proof (cases "w1 < pi")
    case True
    with body obtain r where
      r: "sweep_w2 w1 (d / sin w1) (5 / 10 * (d / sin w1)) ind points = Some r"
      and k: "(case r of Inl e \<Rightarrow> Some (Inl e) | Inr s \<Rightarrow> f d (w1 + d) (fst s) (snd s)) = Some y"
      by (auto simp only: if_True bind_eq_Some_conv)
    show ?thesis
    proof (cases r)
      case (Inl e)
      with k show ?thesis by auto
    next
      case (Inr s)
      have lp: "length (snd s) = length points"
        using sweep_w2_length [OF r] Inr by (simp add: keeps_length_def)
      from k Inr have "f d (w1 + d) (fst s) (snd s) = Some y" by simp
      from ih [OF this] lp show ?thesis by (auto simp: keeps_length_def split: sum.splits)
    qed
  next
    case False
    with body show ?thesis by auto
  qed
qed

lemma sphere_pass_length:
  assumes "sphere_pass delta points = Some (Inr (ind', points'))"
  shows "length points' = length points"
proof -
  from assms have "sweep_w1 delta (0.5 * delta) 0 points = Some (Inr (ind', points'))"
    by (simp add: sphere_pass_def split: if_splits)
  from sweep_w1_length [OF this] show ?thesis by simp
qed

lemma points_on_2sphere_loop_length:
  "points_on_2sphere_loop k num_pts delta ind points = Some (Inr points') \<Longrightarrow>
   length points' = length points"
proof (induction k arbitrary: delta ind points)
  case 0
  then show ?case by simp
next
  case (Suc k)
  show ?case
  proof (cases "ind \<noteq> num_pts")
    case True
    with Suc.prems obtain i p where
      pass: "sphere_pass delta points = Some (Inr (i, p))"
      and rest: "points_on_2sphere_loop k num_pts
                   (delta * (if i = 0 then 0 else exp (ln (real i / real num_pts) / 3))) i p =
                 Some (Inr points')"
      by (auto split: option.splits sum.splits)
    from Suc.IH [OF rest] sphere_pass_length [OF pass] show ?thesis by simp
  next
    case False
    with Suc.prems show ?thesis by simp
  qed
qed

text \<open>
  Whatever \<^verbatim>\<open>points_on_2sphere(n)\<close> returns has \<open>n\<close> rows: the returned value is
  \<^verbatim>\<open>points[0:num_pts, :]\<close> of an array that keeps its \<open>2n\<close> rows. Whether the call
  returns is a separate question: a pass that generates more than \<open>2n\<close> points raises
  \<^verbatim>\<open>IndexError\<close>, and after a pass that generates none the next pass does not end.
\<close>

lemma points_on_2sphere_rows_if_returns:
  assumes "points_on_2sphere num_pts = Some (Inr rows)"
  shows "length rows = num_pts"
proof -
  from assms obtain delta points' where
    loop: "points_on_2sphere_loop 1000 num_pts delta 0
             (replicate (2 * num_pts) (0, 0, 0, 0)) = Some (Inr points')"
    and rows: "rows = take num_pts points'"
    by (auto simp: points_on_2sphere_def Let_def split: if_splits option.splits sum.splits)
  from points_on_2sphere_loop_length [OF loop] rows show ?thesis by simp
qed

end
